theory Spec2Isabelle
  imports Main
begin

section \<open>JavaScript values\<close>

text \<open>
  The library shapes untyped JavaScript values (\<^verbatim>\<open>any\<close>).  A number is an IEEE double.
  The model holds the integer-valued doubles (a page number, a page size and what
  \<^verbatim>\<open>parseInt\<close> returns are integers), the two infinities and \<^verbatim>\<open>NaN\<close>; \<open>Num i\<close> stands
  for a double when \<open>i\<close> is representable, that is when \<open>double_of_int i = Num i\<close>.
  Fractions are outside the model, and so is the sign of zero.  An object is the list of
  its own properties in enumeration order (the order of \<^verbatim>\<open>Object.entries\<close>); property
  keys are unique.  A \<^verbatim>\<open>Date\<close> object carries its time value, \<open>None\<close> for an invalid
  date.
\<close>

datatype jsnum = NaN | Num int | PosInfinity | NegInfinity

text \<open>
  The double nearest to an integer (round to nearest, ties to even): an integer below
  2^53 in magnitude is a double; a larger one keeps its 53 leading bits, rounded, and
  becomes an infinity from 2^1024 on.
\<close>

fun bit_length :: "nat \<Rightarrow> nat" where
  "bit_length n = (if n = 0 then 0 else Suc (bit_length (n div 2)))"

definition double_of_int :: "int \<Rightarrow> jsnum" where
  "double_of_int n =
     (let a = nat \<bar>n\<bar> in
      if a < 2 ^ 53 then Num n
      else
        (let e = bit_length a - 53;
             q = a div 2 ^ e;
             r = a mod 2 ^ e;
             half = 2 ^ (e - 1);
             m = (if r > half \<or> (r = half \<and> odd q) then q + 1 else q);
             mag = m * 2 ^ e
         in if mag \<ge> 2 ^ 1024 then (if n < 0 then NegInfinity else PosInfinity)
            else Num (if n < 0 then - int mag else int mag)))"

datatype jv =
    JUndefined
  | JNull
  | JBool bool
  | JNumber jsnum
  | JString string
  | JArray "jv list"
  | JObject "(string \<times> jv) list"
  | JDate "int option"

text \<open>Truthiness (\<^verbatim>\<open>if (x)\<close>, \<^verbatim>\<open>x && y\<close>, \<^verbatim>\<open>x || y\<close>).\<close>

fun truthy_num :: "jsnum \<Rightarrow> bool" where
  "truthy_num NaN = False"
| "truthy_num (Num i) = (i \<noteq> 0)"
| "truthy_num PosInfinity = True"
| "truthy_num NegInfinity = True"

fun truthy :: "jv \<Rightarrow> bool" where
  "truthy JUndefined = False"
| "truthy JNull = False"
| "truthy (JBool b) = b"
| "truthy (JNumber n) = truthy_num n"
| "truthy (JString s) = (s \<noteq> [])"
| "truthy (JArray xs) = True"
| "truthy (JObject kvs) = True"
| "truthy (JDate t) = True"

text \<open>\<^verbatim>\<open>value === null || value === undefined\<close>\<close>

fun nullish :: "jv \<Rightarrow> bool" where
  "nullish JUndefined = True"
| "nullish JNull = True"
| "nullish v = False"

text \<open>
  Arithmetic on numbers, as the engine does it: the exact result rounded to the nearest
  double; \<^verbatim>\<open>NaN\<close> is absorbing, and so are the infinities except where the result is
  undefined (\<^verbatim>\<open>Infinity - Infinity\<close>, \<^verbatim>\<open>Infinity * 0\<close>).
\<close>

fun num_sub :: "jsnum \<Rightarrow> jsnum \<Rightarrow> jsnum" where
  "num_sub NaN b = NaN"
| "num_sub a NaN = NaN"
| "num_sub (Num a) (Num b) = double_of_int (a - b)"
| "num_sub PosInfinity PosInfinity = NaN"
| "num_sub NegInfinity NegInfinity = NaN"
| "num_sub PosInfinity b = PosInfinity"
| "num_sub NegInfinity b = NegInfinity"
| "num_sub (Num a) PosInfinity = NegInfinity"
| "num_sub (Num a) NegInfinity = PosInfinity"

fun num_sign :: "jsnum \<Rightarrow> int" where
  "num_sign NaN = 0"
| "num_sign (Num i) = sgn i"
| "num_sign PosInfinity = 1"
| "num_sign NegInfinity = - 1"

fun num_mul :: "jsnum \<Rightarrow> jsnum \<Rightarrow> jsnum" where
  "num_mul NaN b = NaN"
| "num_mul a NaN = NaN"
| "num_mul (Num a) (Num b) = double_of_int (a * b)"
| "num_mul a b =
     (if num_sign a * num_sign b = 0 then NaN
      else if num_sign a * num_sign b > 0 then PosInfinity
      else NegInfinity)"

text \<open>\<^verbatim>\<open>a < b\<close> and \<^verbatim>\<open>a > b\<close> on numbers: false as soon as one side is \<^verbatim>\<open>NaN\<close>.\<close>

fun num_lt :: "jsnum \<Rightarrow> jsnum \<Rightarrow> bool" where
  "num_lt NaN b = False"
| "num_lt a NaN = False"
| "num_lt (Num a) (Num b) = (a < b)"
| "num_lt a PosInfinity = (a \<noteq> PosInfinity)"
| "num_lt NegInfinity b = (b \<noteq> NegInfinity)"
| "num_lt a b = False"

definition num_gt :: "jsnum \<Rightarrow> jsnum \<Rightarrow> bool" where
  "num_gt a b = num_lt b a"

text \<open>
  \<^verbatim>\<open>key.split('.')\<close>: the text between the dots, one more segment than there are dots.
\<close>

fun split_dot :: "string \<Rightarrow> string list" where
  "split_dot [] = [[]]"
| "split_dot (c # cs) =
     (if c = CHR ''.'' then [] # split_dot cs
      else (case split_dot cs of
              [] \<Rightarrow> [[c]]
            | p # ps \<Rightarrow> (c # p) # ps))"

text \<open>\<^verbatim>\<open>key.includes('.')\<close>\<close>

definition includes_dot :: "string \<Rightarrow> bool" where
  "includes_dot k = (CHR ''.'' \<in> set k)"

text \<open>
  \<^verbatim>\<open>parts[i]\<close> used as a computed property key: out of range it is \<^verbatim>\<open>undefined\<close>,
  which names the property \<^verbatim>\<open>"undefined"\<close>.
\<close>

definition part :: "string list \<Rightarrow> nat \<Rightarrow> string" where
  "part parts i = (if i < length parts then parts ! i else ''undefined'')"

section \<open>The request and the query options (types)\<close>

record RangedFilter =
  key :: string
  start :: jv
  end_r :: jv

record FilteringQuery =
  filters :: "(string \<times> jv) list option"
  searchFilters :: "(string \<times> jv) list option"
  rangedFilters :: "RangedFilter list option"
  orderKey :: "string option"
  orderRule :: "string option"
  page :: "jsnum option"
  rows :: "jsnum option"

record PrismaQueryOptions =
  qwhere :: jv
  orderBy :: jv
  qtake :: jsnum
  qskip :: jsnum

section \<open>The query compiler (builders/queryBuilder.ts)\<close>

text \<open>The condition one filter entry contributes (the body of the loop of
  \<^verbatim>\<open>buildWhereQuery\<close> after the null check).\<close>

definition where_condition :: "string \<Rightarrow> jv \<Rightarrow> jv" where
  "where_condition k v =
     (if includes_dot k then
        (let parts = split_dot k; relation = part parts 0; column = part parts 1 in
         (case v of
            JArray vals \<Rightarrow>
              JObject [(''OR'', JArray (map (\<lambda>val. JObject [(relation, JObject [(column, val)])]) vals))]
          | _ \<Rightarrow> JObject [(relation, JObject [(column, v)])]))
      else
        (case v of
           JArray vals \<Rightarrow> JObject [(''OR'', JArray (map (\<lambda>val. JObject [(k, val)]) vals))]
         | _ \<Rightarrow> JObject [(k, v)]))"

text \<open>The loop of \<^verbatim>\<open>buildWhereQuery\<close>, with \<^verbatim>\<open>whereConditions\<close> as accumulator.\<close>

fun buildWhereQuery_loop :: "(string \<times> jv) list \<Rightarrow> jv list \<Rightarrow> jv list" where
  "buildWhereQuery_loop [] whereConditions = whereConditions"
| "buildWhereQuery_loop ((k, v) # rest) whereConditions =
     (if nullish v then buildWhereQuery_loop rest whereConditions
      else buildWhereQuery_loop rest (whereConditions @ [where_condition k v]))"

definition buildWhereQuery :: "(string \<times> jv) list \<Rightarrow> jv list" where
  "buildWhereQuery fs = buildWhereQuery_loop fs []"

text \<open>The predicate one search entry contributes.\<close>

definition searchQuery :: "string \<Rightarrow> jv \<Rightarrow> jv" where
  "searchQuery k v =
     (if includes_dot k then
        (let parts = split_dot k; relation = part parts 0; column = part parts 1 in
         JObject [(relation, JObject [(column, JObject [(''contains'', v)])])])
      else JObject [(k, JObject [(''contains'', v)])])"

text \<open>The loop of \<^verbatim>\<open>buildSearchQuery\<close>; the state is
  \<^verbatim>\<open>(whereConditions, orQuerySearchArray)\<close>.\<close>

fun buildSearchQuery_loop ::
  "bool \<Rightarrow> (string \<times> jv) list \<Rightarrow> jv list \<times> jv list \<Rightarrow> jv list \<times> jv list" where
  "buildSearchQuery_loop isMultiKey [] st = st"
| "buildSearchQuery_loop isMultiKey ((k, v) # rest) (whereConditions, orQuerySearchArray) =
     (if nullish v then buildSearchQuery_loop isMultiKey rest (whereConditions, orQuerySearchArray)
      else if isMultiKey then
        buildSearchQuery_loop isMultiKey rest (whereConditions, orQuerySearchArray @ [searchQuery k v])
      else
        buildSearchQuery_loop isMultiKey rest (whereConditions @ [searchQuery k v], orQuerySearchArray))"

definition buildSearchQuery :: "(string \<times> jv) list \<Rightarrow> jv list" where
  "buildSearchQuery ss =
     (let isMultiKey = (length ss > 1);
          (whereConditions, orQuerySearchArray) = buildSearchQuery_loop isMultiKey ss ([], [])
      in if isMultiKey \<and> length orQuerySearchArray > 0
         then whereConditions @ [JObject [(''OR'', JArray orQuerySearchArray)]]
         else whereConditions)"

definition rangeCondition :: "RangedFilter \<Rightarrow> jv" where
  "rangeCondition rng =
     (if includes_dot (key rng) then
        (let parts = split_dot (key rng); relation = part parts 0; column = part parts 1 in
         JObject [(relation, JObject [(column,
           JObject [(''gte'', start rng), (''lte'', end_r rng)])])])
      else JObject [(key rng, JObject [(''gte'', start rng), (''lte'', end_r rng)])])"

fun buildRangedFilter_loop :: "RangedFilter list \<Rightarrow> jv list \<Rightarrow> jv list" where
  "buildRangedFilter_loop [] whereConditions = whereConditions"
| "buildRangedFilter_loop (rng # rest) whereConditions =
     buildRangedFilter_loop rest (whereConditions @ [rangeCondition rng])"

definition buildRangedFilter :: "RangedFilter list \<Rightarrow> jv list" where
  "buildRangedFilter rs = buildRangedFilter_loop rs []"

text \<open>\<^verbatim>\<open>if (filter.page)\<close> and \<^verbatim>\<open>if (filter.rows)\<close> test truthiness: an unset
  field, \<^verbatim>\<open>0\<close> and \<^verbatim>\<open>NaN\<close> all fail the test.\<close>

definition truthy_opt :: "jsnum option \<Rightarrow> bool" where
  "truthy_opt n = (case n of None \<Rightarrow> False | Some x \<Rightarrow> truthy_num x)"

definition buildPagination :: "FilteringQuery \<Rightarrow> jsnum \<times> jsnum" where
  "buildPagination f =
     (let take0 = Num 10; skip0 = Num 0 in
      if truthy_opt (page f) then
        (if truthy_opt (rows f) then
           (the (rows f), num_mul (num_sub (the (page f)) (Num 1)) (the (rows f)))
         else (take0, num_mul (Num 10) (num_sub (the (page f)) (Num 1))))
      else (take0, skip0))"

definition buildFilterQuery :: "FilteringQuery \<Rightarrow> PrismaQueryOptions" where
  "buildFilterQuery f =
     (let and0 = [];
          and1 = (case filters f of None \<Rightarrow> and0 | Some fs \<Rightarrow> and0 @ buildWhereQuery fs);
          and2 = (case searchFilters f of None \<Rightarrow> and1 | Some ss \<Rightarrow> and1 @ buildSearchQuery ss);
          and3 = (case rangedFilters f of None \<Rightarrow> and2 | Some rs \<Rightarrow> and2 @ buildRangedFilter rs);
          ob = (case orderKey f of
                  None \<Rightarrow> JObject []
                | Some k \<Rightarrow>
                    if k \<noteq> [] then
                      JObject [(k, JString (case orderRule f of None \<Rightarrow> ''asc'' | Some r \<Rightarrow> r))]
                    else JObject []);
          (t, s) = buildPagination f
      in \<lparr>qwhere = JObject [(''AND'', JArray and3)], orderBy = ob, qtake = t, qskip = s\<rparr>)"

text \<open>The sequence under \<^verbatim>\<open>where.AND\<close> of a query.\<close>

definition where_AND :: "PrismaQueryOptions \<Rightarrow> jv list" where
  "where_AND q =
     (case qwhere q of
        JObject kvs \<Rightarrow> (case map_of kvs ''AND'' of Some (JArray xs) \<Rightarrow> xs | _ \<Rightarrow> [])
      | _ \<Rightarrow> [])"

section \<open>What the JavaScript engine provides\<close>

text \<open>
  Built-ins of the engine that the repository calls and does not define are parameters
  of the model; every theorem below holds for each choice of them.  An exception is a
  value of type \<open>error\<close>.
  \<^item> \<open>JSON_parse s\<close>: \<^verbatim>\<open>JSON.parse(s)\<close>, \<open>None\<close> when it throws \<^verbatim>\<open>SyntaxError\<close>;
  \<^item> \<open>Date_parse s\<close>: the time value of \<^verbatim>\<open>new Date(s)\<close> for a string, \<open>None\<close> when invalid;
  \<^item> \<open>Number_of_string s\<close>: \<^verbatim>\<open>Number(s)\<close> for a string;
  \<^item> \<open>Number_toString n\<close>: a number inside a template literal (decimal digits, exponent
    notation from 1e21 on);
  \<^item> \<open>parseInt_approx n\<close>: \<^verbatim>\<open>parseInt\<close> of a digit run of value \<open>n\<close> with more than 20
    significant digits, where the engine may replace the digits after the 20th by zeros
    before it rounds;
  \<^item> \<open>isNaN_object v\<close>: \<^verbatim>\<open>isNaN(v)\<close> for an array or a plain object (the conversion
    to a primitive may throw);
  \<^item> \<open>Date_of_object v\<close>: the time value of \<^verbatim>\<open>new Date(v)\<close> for an array or a plain
    object;
  \<^item> \<open>assign_exotic v k x\<close>: the array or \<^verbatim>\<open>Date\<close> object \<open>v\<close> after \<^verbatim>\<open>v[k] = x\<close>.
\<close>

datatype error = TypeError | SyntaxError

record platform =
  JSON_parse :: "string \<Rightarrow> jv option"
  Date_parse :: "string \<Rightarrow> int option"
  Number_of_string :: "string \<Rightarrow> jsnum"
  Number_toString :: "jsnum \<Rightarrow> string"
  parseInt_approx :: "int \<Rightarrow> jsnum"
  isNaN_object :: "jv \<Rightarrow> error + bool"
  Date_of_object :: "jv \<Rightarrow> error + int option"
  assign_exotic :: "jv \<Rightarrow> string \<Rightarrow> jv \<Rightarrow> jv"

section \<open>The validator (utils/validation.ts)\<close>

text \<open>
  Of \<^verbatim>\<open>QuerySpecification\<close> the validator reads only these four fields
  (\<^verbatim>\<open>allowedOperators\<close>, \<^verbatim>\<open>defaultPageSize\<close> and \<^verbatim>\<open>requiredFields\<close> are never read).
\<close>

record QuerySpecification =
  allowedFields :: "string list option"
  allowedRelations :: "string list option"
  maxPageSize :: "jsnum option"
  forbiddenFields :: "string list option"

record ValidationResult =
  isValid :: bool
  errors :: "string list"
  warnings :: "string list"

text \<open>The apostrophe of the messages.\<close>

definition apo :: string where
  "apo = [CHR 0x27]"

text \<open>The decimal digits of a natural number (an array index as a property key).\<close>

fun digits10 :: "nat \<Rightarrow> string" where
  "digits10 n =
     (if n < 10 then [''0123456789'' ! n]
      else digits10 (n div 10) @ [''0123456789'' ! (n mod 10)])"

text \<open>\<^verbatim>\<open>spec.allowedFields && !spec.allowedFields.includes(field)\<close>: an array, even an
  empty one, is truthy.\<close>

definition not_in_list :: "string list option \<Rightarrow> string \<Rightarrow> bool" where
  "not_in_list l x = (case l of None \<Rightarrow> False | Some xs \<Rightarrow> x \<notin> set xs)"

text \<open>\<^verbatim>\<open>spec.forbiddenFields?.includes(field)\<close>\<close>

definition in_list :: "string list option \<Rightarrow> string \<Rightarrow> bool" where
  "in_list l x = (case l of None \<Rightarrow> False | Some xs \<Rightarrow> x \<in> set xs)"

text \<open>The functions push onto the two arrays they are handed; the state is
  \<^verbatim>\<open>(errors, warnings)\<close>.  Each \<open>_step\<close> is one iteration of the loop.\<close>

definition validateFilters_step ::
  "QuerySpecification \<Rightarrow> string \<times> jv \<Rightarrow> string list \<times> string list \<Rightarrow> string list \<times> string list" where
  "validateFilters_step spec fv st =
     (case (fv, st) of ((fld, v), (errs, warns)) \<Rightarrow>
      if nullish v then (errs, warns)
      else
        (let (errs1, warns1) =
               (if not_in_list (allowedFields spec) fld then
                  (if in_list (forbiddenFields spec) fld
                   then (errs @ [''Field '' @ apo @ fld @ apo @ '' is forbidden''], warns)
                   else (errs, warns @ [''Field '' @ apo @ fld @ apo @ '' is not in allowed fields list'']))
                else (errs, warns));
             errs2 =
               (if includes_dot fld then
                  (let relation = part (split_dot fld) 0 in
                   if relation \<noteq> [] \<and> not_in_list (allowedRelations spec) relation
                   then errs1 @ [''Relation '' @ apo @ relation @ apo @ '' is not allowed'']
                   else errs1)
                else errs1)
         in (errs2, warns1)))"

definition validateFilters ::
  "(string \<times> jv) list \<Rightarrow> QuerySpecification \<Rightarrow> string list \<times> string list \<Rightarrow> string list \<times> string list" where
  "validateFilters fs spec st = fold (validateFilters_step spec) fs st"

definition validateSearchFilters_step ::
  "QuerySpecification \<Rightarrow> string \<times> jv \<Rightarrow> string list \<times> string list \<Rightarrow> string list \<times> string list" where
  "validateSearchFilters_step spec fv st =
     (case (fv, st) of ((fld, v), (errs, warns)) \<Rightarrow>
      if nullish v then (errs, warns)
      else
        (let warns1 =
               (if not_in_list (allowedFields spec) fld
                then warns @ [''Search field '' @ apo @ fld @ apo @ '' is not in allowed fields list'']
                else warns);
             errs1 =
               (if includes_dot fld then
                  (let relation = part (split_dot fld) 0 in
                   if relation \<noteq> [] \<and> not_in_list (allowedRelations spec) relation
                   then errs @ [''Search relation '' @ apo @ relation @ apo @ '' is not allowed'']
                   else errs)
                else errs)
         in (errs1, warns1)))"

definition validateSearchFilters ::
  "(string \<times> jv) list \<Rightarrow> QuerySpecification \<Rightarrow> string list \<times> string list \<Rightarrow> string list \<times> string list" where
  "validateSearchFilters ss spec st = fold (validateSearchFilters_step spec) ss st"

text \<open>
  \<^verbatim>\<open>isValidDate\<close>: a string matching
  \<^verbatim>\<open>/^\d{4}-\d{2}-\d{2}T\d{2}:\d{2}:\d{2}(?:\.\d+)?Z$/\<close>.  The pattern fixes the first
  nineteen characters (digits and separators by position); what follows is \<^verbatim>\<open>Z\<close>, or a
  dot, one or more digits and \<^verbatim>\<open>Z\<close>.
\<close>

definition is_digit :: "char \<Rightarrow> bool" where
  "is_digit c = (c \<in> set ''0123456789'')"

definition date_head :: "string \<Rightarrow> bool" where
  "date_head s =
     (length s = 19
      \<and> list_all (\<lambda>i. is_digit (s ! i)) [0, 1, 2, 3, 5, 6, 8, 9, 11, 12, 14, 15, 17, 18]
      \<and> s ! 4 = CHR ''-'' \<and> s ! 7 = CHR ''-'' \<and> s ! 10 = CHR ''T''
      \<and> s ! 13 = CHR '':'' \<and> s ! 16 = CHR '':'')"

definition date_tail :: "string \<Rightarrow> bool" where
  "date_tail s =
     (case s of
        [] \<Rightarrow> False
      | c # cs \<Rightarrow>
          if c = CHR ''Z'' then cs = []
          else c = CHR ''.'' \<and> takeWhile is_digit cs \<noteq> [] \<and> dropWhile is_digit cs = ''Z'')"

definition dateRegex_test :: "string \<Rightarrow> bool" where
  "dateRegex_test s = (date_head (take 19 s) \<and> date_tail (drop 19 s))"

definition isValidDate :: "jv \<Rightarrow> bool" where
  "isValidDate dateString = (case dateString of JString s \<Rightarrow> dateRegex_test s | _ \<Rightarrow> False)"

text \<open>
  \<^verbatim>\<open>startDate > endDate\<close> compares the time values of the two \<^verbatim>\<open>Date\<close> objects and is
  false if one of them is invalid.
\<close>

definition date_after :: "int option \<Rightarrow> int option \<Rightarrow> bool" where
  "date_after a b = (case (a, b) of (Some x, Some y) \<Rightarrow> x > y | _ \<Rightarrow> False)"

text \<open>A bound inside a template literal; the validator only prints bounds that
  \<^verbatim>\<open>isValidDate\<close> accepted, which are strings.\<close>

definition bound_text :: "jv \<Rightarrow> string" where
  "bound_text v = (case v of JString s \<Rightarrow> s | _ \<Rightarrow> [])"

definition date_order_error :: "RangedFilter \<Rightarrow> string" where
  "date_order_error rng =
     ''Range start date '' @ apo @ bound_text (start rng) @ apo
       @ '' is after end date '' @ apo @ bound_text (end_r rng) @ apo"

definition validateRangedFilters_step ::
  "platform \<Rightarrow> QuerySpecification \<Rightarrow> RangedFilter
     \<Rightarrow> string list \<times> string list \<Rightarrow> string list \<times> string list" where
  "validateRangedFilters_step P spec rng st =
     (case st of (errs, warns) \<Rightarrow>
        (let warns1 =
               (if not_in_list (allowedFields spec) (key rng)
                then warns @ [''Range field '' @ apo @ key rng @ apo @ '' is not in allowed fields list'']
                else warns);
             errs1 =
               (if includes_dot (key rng) then
                  (let relation = part (split_dot (key rng)) 0 in
                   if relation \<noteq> [] \<and> not_in_list (allowedRelations spec) relation
                   then errs @ [''Range relation '' @ apo @ relation @ apo @ '' is not allowed'']
                   else errs)
                else errs);
             errs2 =
               (if isValidDate (start rng) \<and> isValidDate (end_r rng) then
                  (let startDate = Date_parse P (bound_text (start rng));
                       endDate = Date_parse P (bound_text (end_r rng))
                   in if date_after startDate endDate then errs1 @ [date_order_error rng] else errs1)
                else errs1)
         in (errs2, warns1)))"

definition validateRangedFilters ::
  "platform \<Rightarrow> RangedFilter list \<Rightarrow> QuerySpecification
     \<Rightarrow> string list \<times> string list \<Rightarrow> string list \<times> string list" where
  "validateRangedFilters P rs spec st = fold (validateRangedFilters_step P spec) rs st"

definition validateOrderKey ::
  "string \<Rightarrow> QuerySpecification \<Rightarrow> string list \<times> string list \<Rightarrow> string list \<times> string list" where
  "validateOrderKey k spec st =
     (case st of (errs, warns) \<Rightarrow>
        (let warns1 =
               (if not_in_list (allowedFields spec) k
                then warns @ [''Order field '' @ apo @ k @ apo @ '' is not in allowed fields list'']
                else warns);
             errs1 =
               (if includes_dot k then
                  (let relation = part (split_dot k) 0 in
                   if relation \<noteq> [] \<and> not_in_list (allowedRelations spec) relation
                   then errs @ [''Order relation '' @ apo @ relation @ apo @ '' is not allowed'']
                   else errs)
                else errs)
         in (errs1, warns1)))"

definition validatePagination ::
  "platform \<Rightarrow> FilteringQuery \<Rightarrow> QuerySpecification \<Rightarrow> string list \<Rightarrow> string list" where
  "validatePagination P query spec errs =
     (let errs1 =
            (case page query of
               None \<Rightarrow> errs
             | Some p \<Rightarrow>
                 if num_lt p (Num 1) then errs @ [''Page number must be greater than 0''] else errs)
      in case rows query of
           None \<Rightarrow> errs1
         | Some r \<Rightarrow>
             if num_lt r (Num 1) then errs1 @ [''Rows per page must be greater than 0'']
             else if truthy_opt (maxPageSize spec) \<and> num_gt r (the (maxPageSize spec))
             then errs1 @ [''Rows per page cannot exceed '' @ Number_toString P (the (maxPageSize spec))]
             else errs1)"

definition validateQuery ::
  "platform \<Rightarrow> FilteringQuery \<Rightarrow> QuerySpecification option \<Rightarrow> ValidationResult" where
  "validateQuery P query specification =
     (case specification of
        None \<Rightarrow> \<lparr>isValid = True, errors = [], warnings = []\<rparr>
      | Some spec \<Rightarrow>
          (let st0 = ([], []);
               st1 = (case filters query of None \<Rightarrow> st0 | Some fs \<Rightarrow> validateFilters fs spec st0);
               st2 = (case searchFilters query of
                        None \<Rightarrow> st1 | Some ss \<Rightarrow> validateSearchFilters ss spec st1);
               st3 = (case rangedFilters query of
                        None \<Rightarrow> st2 | Some rs \<Rightarrow> validateRangedFilters P rs spec st2);
               st4 = (case orderKey query of
                        None \<Rightarrow> st3
                      | Some k \<Rightarrow> if k \<noteq> [] then validateOrderKey k spec st3 else st3);
               errs = validatePagination P query spec (fst st4)
           in \<lparr>isValid = (length errs = 0), errors = errs, warnings = snd st4\<rparr>))"

section \<open>The parameter extractor (utils/queryExtractor.ts)\<close>

text \<open>\<^verbatim>\<open>QueryParams\<close>: each parameter is a string, an array of strings, or absent.\<close>

datatype param = PString string | PArray "string list"

type_synonym QueryParams = "string \<Rightarrow> param option"

text \<open>\<^verbatim>\<open>if (queryParams.x)\<close>: an empty string is falsy, an array (even empty) truthy.\<close>

fun truthy_param :: "param option \<Rightarrow> bool" where
  "truthy_param None = False"
| "truthy_param (Some (PString s)) = (s \<noteq> [])"
| "truthy_param (Some (PArray xs)) = True"

text \<open>\<^verbatim>\<open>Array.isArray(x) ? x[0] : x\<close>\<close>

fun first_value :: "param \<Rightarrow> jv" where
  "first_value (PString s) = JString s"
| "first_value (PArray []) = JUndefined"
| "first_value (PArray (s # rest)) = JString s"

text \<open>
  \<^verbatim>\<open>parseInt(x, 10)\<close>: leading white space is skipped, then an optional sign, then the
  longest run of decimal digits; no digit gives \<^verbatim>\<open>NaN\<close>.  The result is the double
  nearest to the integer of the run; with more than 20 significant digits the engine may
  approximate.  \<^verbatim>\<open>undefined\<close> is read as the text \<^verbatim>\<open>"undefined"\<close>.
\<close>

definition is_space :: "char \<Rightarrow> bool" where
  "is_space c = (c \<in> set [CHR 0x09, CHR 0x0A, CHR 0x0B, CHR 0x0C, CHR 0x0D, CHR 0x20, CHR 0xA0])"

definition digit_value :: "char \<Rightarrow> nat" where
  "digit_value c = of_char c - 48"

definition digits_value :: "string \<Rightarrow> nat" where
  "digits_value ds = foldl (\<lambda>a c. 10 * a + digit_value c) 0 ds"

definition parseInt_string :: "platform \<Rightarrow> string \<Rightarrow> jsnum" where
  "parseInt_string P s =
     (let t = dropWhile is_space s;
          (sign, u) =
            (case t of
               [] \<Rightarrow> (1, [])
             | c # r \<Rightarrow> if c = CHR ''-'' then (- 1, r) else if c = CHR ''+'' then (1, r) else (1, t));
          ds = takeWhile is_digit u
      in if ds = [] then NaN
         else if length (dropWhile (\<lambda>c. c = CHR ''0'') ds) \<le> 20
         then double_of_int (sign * int (digits_value ds))
         else parseInt_approx P (sign * int (digits_value ds)))"

definition parseInt :: "platform \<Rightarrow> jv \<Rightarrow> jsnum" where
  "parseInt P v = (case v of JString s \<Rightarrow> parseInt_string P s | _ \<Rightarrow> NaN)"

text \<open>
  The request as the extractor builds it.  \<^verbatim>\<open>JSON.parse\<close> returns \<^verbatim>\<open>any\<close>, so the
  three decoded fields hold arbitrary values; \<open>None\<close> is a key that was never assigned.
\<close>

record ExtractedQuery =
  x_filters :: "jv option"
  x_searchFilters :: "jv option"
  x_rangedFilters :: "jv option"
  x_orderKey :: "jv option"
  x_orderRule :: "jv option"
  x_page :: "jsnum option"
  x_rows :: "jsnum option"

text \<open>The body of one \<^verbatim>\<open>try\<close> block: the value it assigns, or the exception of
  \<^verbatim>\<open>JSON.parse\<close>.\<close>

definition decode_param :: "platform \<Rightarrow> param \<Rightarrow> error + jv" where
  "decode_param P x =
     (case first_value x of
        JString s \<Rightarrow> (case JSON_parse P s of None \<Rightarrow> Inl SyntaxError | Some v \<Rightarrow> Inr v)
      | v \<Rightarrow> Inr v)"

text \<open>
  The state is the request under construction and the lines written with
  \<^verbatim>\<open>console.warn\<close>.  An exception of a \<^verbatim>\<open>try\<close> body goes to its \<^verbatim>\<open>catch\<close>; the
  statements outside the \<^verbatim>\<open>try\<close> blocks (\<^verbatim>\<open>Array.isArray\<close>, indexing, \<^verbatim>\<open>parseInt\<close>
  of a string or \<^verbatim>\<open>undefined\<close>) do not throw.  The result is the returned request, or
  the exception that leaves the function.
\<close>

definition extractQueryFromParams ::
  "platform \<Rightarrow> QueryParams \<Rightarrow> error + (ExtractedQuery \<times> string list)" where
  "extractQueryFromParams P queryParams =
     (let f0 = \<lparr>x_filters = None, x_searchFilters = None, x_rangedFilters = None,
                 x_orderKey = None, x_orderRule = None, x_page = None, x_rows = None\<rparr>;
          c0 = [];
          (f1, c1) =
            (if truthy_param (queryParams ''filters'') then
               (case decode_param P (the (queryParams ''filters'')) of
                  Inr v \<Rightarrow> (f0\<lparr>x_filters := Some v\<rparr>, c0)
                | Inl e \<Rightarrow> (f0, c0 @ [''Failed to parse filters:'']))
             else (f0, c0));
          (f2, c2) =
            (if truthy_param (queryParams ''searchFilters'') then
               (case decode_param P (the (queryParams ''searchFilters'')) of
                  Inr v \<Rightarrow> (f1\<lparr>x_searchFilters := Some v\<rparr>, c1)
                | Inl e \<Rightarrow> (f1, c1 @ [''Failed to parse searchFilters:'']))
             else (f1, c1));
          (f3, c3) =
            (if truthy_param (queryParams ''rangedFilters'') then
               (case decode_param P (the (queryParams ''rangedFilters'')) of
                  Inr v \<Rightarrow> (f2\<lparr>x_rangedFilters := Some v\<rparr>, c2)
                | Inl e \<Rightarrow> (f2, c2 @ [''Failed to parse rangedFilters:'']))
             else (f2, c2));
          f4 = (if truthy_param (queryParams ''orderKey'')
                then f3\<lparr>x_orderKey := Some (first_value (the (queryParams ''orderKey'')))\<rparr>
                else f3);
          f5 = (if truthy_param (queryParams ''orderRule'')
                then f4\<lparr>x_orderRule := Some (first_value (the (queryParams ''orderRule'')))\<rparr>
                else f4);
          f6 = (if truthy_param (queryParams ''page'')
                then f5\<lparr>x_page := Some (parseInt P (first_value (the (queryParams ''page''))))\<rparr>
                else f5);
          f7 = (if truthy_param (queryParams ''rows'')
                then f6\<lparr>x_rows := Some (parseInt P (first_value (the (queryParams ''rows''))))\<rparr>
                else f6)
      in Inr (f7, c3))"

section \<open>The field transformer (transformers/queryTransformer.ts)\<close>

text \<open>
  Of a \<^verbatim>\<open>RelationHandler\<close> only \<^verbatim>\<open>nestedField\<close> and \<^verbatim>\<open>customHandler\<close> are read.  The
  four tables of a \<^verbatim>\<open>TransformConfig\<close> are maps from the field path to the entry; an
  absent table is the empty map (\<^verbatim>\<open>= {}\<close> in the destructuring), and a lookup is a
  lookup among the table's own keys (a key that names a member of \<^verbatim>\<open>Object.prototype\<close>,
  such as \<^verbatim>\<open>constructor\<close>, is outside the model).  Handlers are functions of the
  configuration.
\<close>

record FieldTypeHandler =
  htype :: string
  searchOperator :: "string option"
  customHandler :: "(jv \<Rightarrow> jv) option"

record RelationHandler =
  nestedField :: "string option"
  relationCustomHandler :: "(jv \<Rightarrow> string \<Rightarrow> jv) option"

record TransformConfig =
  fieldMappings :: "string \<Rightarrow> string option"
  fieldNameMappings :: "string \<Rightarrow> string option"
  fieldTypeHandlers :: "string \<Rightarrow> FieldTypeHandler option"
  relationHandlers :: "string \<Rightarrow> RelationHandler option"

text \<open>\<^verbatim>\<open>typeof v === 'object'\<close>\<close>

fun is_object_type :: "jv \<Rightarrow> bool" where
  "is_object_type JNull = True"
| "is_object_type (JArray xs) = True"
| "is_object_type (JObject kvs) = True"
| "is_object_type (JDate t) = True"
| "is_object_type v = False"

text \<open>\<^verbatim>\<open>obj[k] = v\<close> on a plain object: an existing key keeps its place.\<close>

fun obj_set :: "(string \<times> jv) list \<Rightarrow> string \<Rightarrow> jv \<Rightarrow> (string \<times> jv) list" where
  "obj_set [] k v = [(k, v)]"
| "obj_set ((k', v') # rest) k v =
     (if k' = k then (k, v) # rest else (k', v') # obj_set rest k v)"

text \<open>\<^verbatim>\<open>obj[k]\<close> on a plain object, \<^verbatim>\<open>undefined\<close> for a missing key.\<close>

definition obj_get :: "(string \<times> jv) list \<Rightarrow> string \<Rightarrow> jv" where
  "obj_get kvs k = (case map_of kvs k of None \<Rightarrow> JUndefined | Some v \<Rightarrow> v)"

text \<open>
  \<^verbatim>\<open>Object.entries(v)\<close> for a value that is neither \<^verbatim>\<open>null\<close> nor \<^verbatim>\<open>undefined\<close>: the
  properties of an object, the indexed elements of an array, the indexed characters of a
  string, nothing for a number, a boolean or a \<^verbatim>\<open>Date\<close>.
\<close>

definition own_entries :: "jv \<Rightarrow> (string \<times> jv) list" where
  "own_entries v =
     (case v of
        JObject kvs \<Rightarrow> kvs
      | JArray xs \<Rightarrow> zip (map digits10 [0..<length xs]) xs
      | JString s \<Rightarrow> zip (map digits10 [0..<length s]) (map (\<lambda>c. JString [c]) s)
      | _ \<Rightarrow> [])"

text \<open>
  \<^verbatim>\<open>v.AND\<close> and \<^verbatim>\<open>v.OR\<close>: reading a property of \<^verbatim>\<open>null\<close> or \<^verbatim>\<open>undefined\<close> throws;
  only a plain object has a property of such a name.
\<close>

definition get_property :: "jv \<Rightarrow> string \<Rightarrow> error + jv" where
  "get_property v k =
     (if nullish v then Inl TypeError
      else (case v of JObject kvs \<Rightarrow> Inr (obj_get kvs k) | _ \<Rightarrow> Inr JUndefined))"

text \<open>\<^verbatim>\<open>x || d\<close> for an optional string.\<close>

definition or_default :: "string option \<Rightarrow> string \<Rightarrow> string" where
  "or_default x d = (case x of None \<Rightarrow> d | Some s \<Rightarrow> if s \<noteq> [] then s else d)"

lemma size_map_of:
  "map_of kvs k = Some v \<Longrightarrow> size v < Suc (size_list (size_prod (\<lambda>x. 0) size) kvs)"
  by (induction kvs) (auto split: if_splits)

function extractRawValue :: "jv \<Rightarrow> jv" where
  "extractRawValue (JObject kvs) =
     (case map_of kvs ''contains'' of
        Some c \<Rightarrow> if is_object_type c then extractRawValue c else c
      | None \<Rightarrow>
     (case map_of kvs ''equals'' of
        Some e \<Rightarrow> if is_object_type e then extractRawValue e else e
      | None \<Rightarrow>
     (case map_of kvs ''startsWith'' of
        Some s \<Rightarrow> s
      | None \<Rightarrow>
     (case map_of kvs ''endsWith'' of
        Some s \<Rightarrow> s
      | None \<Rightarrow>
     (case kvs of
        (k0, v0) # rest \<Rightarrow> v0
      | [] \<Rightarrow> JObject kvs)))))"
| "extractRawValue JUndefined = JUndefined"
| "extractRawValue JNull = JNull"
| "extractRawValue (JBool b) = JBool b"
| "extractRawValue (JNumber n) = JNumber n"
| "extractRawValue (JString s) = JString s"
| "extractRawValue (JArray xs) = JArray xs"
| "extractRawValue (JDate t) = JDate t"
  by pat_completeness auto
termination
  by (relation "measure size") (auto dest: size_map_of)

text \<open>The global \<^verbatim>\<open>isNaN(v)\<close>.\<close>

definition js_isNaN :: "platform \<Rightarrow> jv \<Rightarrow> error + bool" where
  "js_isNaN P v =
     (case v of
        JUndefined \<Rightarrow> Inr True
      | JNull \<Rightarrow> Inr False
      | JBool b \<Rightarrow> Inr False
      | JNumber n \<Rightarrow> Inr (n = NaN)
      | JString s \<Rightarrow> Inr (Number_of_string P s = NaN)
      | JDate t \<Rightarrow> Inr (t = None)
      | _ \<Rightarrow> isNaN_object P v)"

text \<open>The time value of \<^verbatim>\<open>new Date(v)\<close>; a time value beyond 8.64e15 ms is invalid.\<close>

definition new_Date :: "platform \<Rightarrow> jv \<Rightarrow> error + int option" where
  "new_Date P v =
     (case v of
        JUndefined \<Rightarrow> Inr None
      | JNull \<Rightarrow> Inr (Some 0)
      | JBool b \<Rightarrow> Inr (Some (if b then 1 else 0))
      | JNumber n \<Rightarrow>
          Inr (case n of
                 NaN \<Rightarrow> None
               | Num i \<Rightarrow> if \<bar>i\<bar> \<le> 8640000000000000 then Some i else None
               | PosInfinity \<Rightarrow> None
               | NegInfinity \<Rightarrow> None)
      | JString s \<Rightarrow> Inr (Date_parse P s)
      | JDate t \<Rightarrow> Inr t
      | _ \<Rightarrow> Date_of_object P v)"

text \<open>\<^verbatim>\<open>s.toLowerCase() === 'true'\<close>\<close>

definition lower_char :: "char \<Rightarrow> char" where
  "lower_char c =
     (if (65::nat) \<le> of_char c \<and> of_char c \<le> (90::nat) then char_of (of_char c + (32::nat)) else c)"

definition lower_is_true :: "string \<Rightarrow> bool" where
  "lower_is_true s = (map lower_char s = ''true'')"

definition processFieldValue :: "platform \<Rightarrow> jv \<Rightarrow> FieldTypeHandler option \<Rightarrow> error + jv" where
  "processFieldValue P v typeHandler =
     (let rawValue = extractRawValue v in
      case typeHandler of
        None \<Rightarrow>
          (case rawValue of
             JString s \<Rightarrow> Inr (JObject [(''contains'', rawValue)])
           | JObject kvs \<Rightarrow> Inr rawValue
           | JDate t \<Rightarrow> Inr rawValue
           | _ \<Rightarrow> Inr (JObject [(''equals'', rawValue)]))
      | Some th \<Rightarrow>
          (case customHandler th of
             Some h \<Rightarrow> Inr (h rawValue)
           | None \<Rightarrow>
               if htype th = ''number'' then
                 (let numValue = (case rawValue of
                                    JString s \<Rightarrow> JNumber (Number_of_string P s)
                                  | _ \<Rightarrow> rawValue)
                  in case js_isNaN P numValue of
                       Inl e \<Rightarrow> Inl e
                     | Inr nan \<Rightarrow>
                         if nan then Inr JNull
                         else Inr (JObject [(or_default (searchOperator th) ''equals'', numValue)]))
               else if htype th = ''boolean'' then
                 (let boolValue = (case rawValue of
                                     JString s \<Rightarrow> lower_is_true s
                                   | _ \<Rightarrow> truthy rawValue)
                  in Inr (JObject [(''equals'', JBool boolValue)]))
               else if htype th = ''date'' then
                 (case (case rawValue of JDate t \<Rightarrow> Inr t | _ \<Rightarrow> new_Date P rawValue) of
                    Inl e \<Rightarrow> Inl e
                  | Inr dateValue \<Rightarrow>
                      if dateValue = None then Inr JNull
                      else Inr (JObject [(or_default (searchOperator th) ''equals'', JDate dateValue)]))
               else if htype th = ''string'' then
                 Inr (JObject [(or_default (searchOperator th) ''contains'', rawValue)])
               else Inr (JObject [(''equals'', rawValue)])))"

text \<open>
  \<^verbatim>\<open>target[k] = x\<close> where \<^verbatim>\<open>target\<close> is truthy: a plain object gets the property, an
  array or a \<^verbatim>\<open>Date\<close> is left to the engine, and a primitive makes the assignment throw
  (module code is strict).
\<close>

definition assign_nested :: "platform \<Rightarrow> jv \<Rightarrow> string \<Rightarrow> jv \<Rightarrow> error + jv" where
  "assign_nested P target k x =
     (case target of
        JObject kvs \<Rightarrow> Inr (JObject (obj_set kvs k x))
      | JArray xs \<Rightarrow> Inr (assign_exotic P target k x)
      | JDate t \<Rightarrow> Inr (assign_exotic P target k x)
      | _ \<Rightarrow> Inl TypeError)"

text \<open>One iteration of the loop of \<^verbatim>\<open>transformCondition\<close>; the state is the object
  \<^verbatim>\<open>transformed\<close>.\<close>

definition transformCondition_step ::
  "platform \<Rightarrow> TransformConfig \<Rightarrow> string \<times> jv \<Rightarrow> (string \<times> jv) list \<Rightarrow> error + (string \<times> jv) list" where
  "transformCondition_step P config kv transformed =
     (case kv of (k, v) \<Rightarrow>
      if nullish v then Inr transformed
      else
        (let relation = or_default (fieldMappings config k) [];
             actualField = or_default (fieldNameMappings config k) k;
             typeHandler = fieldTypeHandlers config k;
             relationHandler = relationHandlers config k
         in
         if relation \<noteq> [] then
           (case (case relationHandler of None \<Rightarrow> None | Some rh \<Rightarrow> relationCustomHandler rh) of
              Some h \<Rightarrow>
                (let result = h v actualField in
                 if result \<noteq> JNull then Inr (obj_set transformed relation result)
                 else Inr transformed)
            | None \<Rightarrow>
                (case processFieldValue P v typeHandler of
                   Inl e \<Rightarrow> Inl e
                 | Inr processedValue \<Rightarrow>
                     if processedValue \<noteq> JNull then
                       (let transformed1 =
                              (if \<not> truthy (obj_get transformed relation)
                               then obj_set transformed relation (JObject [])
                               else transformed)
                        in case assign_nested P (obj_get transformed1 relation) actualField processedValue of
                             Inl e \<Rightarrow> Inl e
                           | Inr target \<Rightarrow> Inr (obj_set transformed1 relation target))
                     else Inr transformed))
         else
           (case processFieldValue P v typeHandler of
              Inl e \<Rightarrow> Inl e
            | Inr processedValue \<Rightarrow>
                if processedValue \<noteq> JNull then
                  (if actualField \<noteq> k then Inr (obj_set transformed actualField processedValue)
                   else Inr (obj_set transformed k processedValue))
                else Inr transformed)))"

fun transformCondition_loop ::
  "platform \<Rightarrow> TransformConfig \<Rightarrow> (string \<times> jv) list \<Rightarrow> (string \<times> jv) list \<Rightarrow> error + (string \<times> jv) list" where
  "transformCondition_loop P config [] transformed = Inr transformed"
| "transformCondition_loop P config (kv # rest) transformed =
     (case transformCondition_step P config kv transformed of
        Inl e \<Rightarrow> Inl e
      | Inr transformed' \<Rightarrow> transformCondition_loop P config rest transformed')"

definition transformCondition :: "platform \<Rightarrow> TransformConfig \<Rightarrow> jv \<Rightarrow> error + jv" where
  "transformCondition P config condition =
     (if nullish condition then Inl TypeError
      else (case transformCondition_loop P config (own_entries condition) [] of
              Inl e \<Rightarrow> Inl e
            | Inr transformed \<Rightarrow> Inr (JObject transformed)))"

text \<open>\<^verbatim>\<open>xs.map(f)\<close> where \<^verbatim>\<open>f\<close> may throw: the first exception ends the call.\<close>

fun map_err :: "('a \<Rightarrow> error + 'b) \<Rightarrow> 'a list \<Rightarrow> error + 'b list" where
  "map_err f [] = Inr []"
| "map_err f (x # xs) =
     (case f x of
        Inl e \<Rightarrow> Inl e
      | Inr y \<Rightarrow> (case map_err f xs of Inl e \<Rightarrow> Inl e | Inr ys \<Rightarrow> Inr (y # ys)))"

text \<open>\<^verbatim>\<open>condition && Object.keys(condition).length > 0\<close>\<close>

definition nonempty_condition :: "jv \<Rightarrow> bool" where
  "nonempty_condition c = (truthy c \<and> length (own_entries c) > 0)"

text \<open>The callback mapped over \<^verbatim>\<open>whereConditions.AND\<close>.\<close>

definition transform_AND_element :: "platform \<Rightarrow> TransformConfig \<Rightarrow> jv \<Rightarrow> error + jv" where
  "transform_AND_element P config condition =
     (case get_property condition ''OR'' of
        Inl e \<Rightarrow> Inl e
      | Inr (JArray ors) \<Rightarrow>
          (case map_err (transformCondition P config) ors of
             Inl e \<Rightarrow> Inl e
           | Inr ts \<Rightarrow>
               (let validORConditions = filter nonempty_condition ts in
                if length validORConditions > 0
                then Inr (JObject [(''OR'', JArray validORConditions)])
                else Inr JNull))
      | Inr other \<Rightarrow> transformCondition P config condition)"

definition transformWhereClause :: "platform \<Rightarrow> jv \<Rightarrow> TransformConfig \<Rightarrow> error + jv" where
  "transformWhereClause P whereConditions config =
     (if \<not> truthy whereConditions then Inr whereConditions
      else
        (case get_property whereConditions ''AND'' of
           Inr (JArray ands) \<Rightarrow>
             (case map_err (transform_AND_element P config) ands of
                Inl e \<Rightarrow> Inl e
              | Inr ts \<Rightarrow>
                  (let transformedAND = filter nonempty_condition ts in
                   if length transformedAND > 0
                   then Inr (JObject (obj_set (own_entries whereConditions) ''AND'' (JArray transformedAND)))
                   else Inr (JObject [])))
         | _ \<Rightarrow>
        (case get_property whereConditions ''OR'' of
           Inr (JArray ors) \<Rightarrow>
             (case map_err (transformCondition P config) ors of
                Inl e \<Rightarrow> Inl e
              | Inr ts \<Rightarrow>
                  (let transformedOR = filter nonempty_condition ts in
                   if length transformedOR > 0
                   then Inr (JObject (obj_set (own_entries whereConditions) ''OR'' (JArray transformedOR)))
                   else Inr (JObject [])))
         | _ \<Rightarrow> transformCondition P config whereConditions)))"

definition transformOrderBy :: "jv \<Rightarrow> TransformConfig \<Rightarrow> jv" where
  "transformOrderBy ob config =
     (if \<not> truthy ob then ob
      else
        (case own_entries ob of
           [] \<Rightarrow> ob
         | (fld, direction) # others \<Rightarrow>
             (let relation = or_default (fieldMappings config fld) [];
                  actualField = or_default (fieldNameMappings config fld) fld;
                  relationHandler = relationHandlers config fld
              in
              if relation \<noteq> [] then
                (case (case relationHandler of None \<Rightarrow> None | Some rh \<Rightarrow> relationCustomHandler rh) of
                   Some h \<Rightarrow> h direction actualField
                 | None \<Rightarrow>
                     (let nested = or_default
                            (case relationHandler of None \<Rightarrow> None | Some rh \<Rightarrow> nestedField rh)
                            actualField
                      in JObject [(relation, JObject [(nested, direction)])]))
              else if actualField \<noteq> fld then JObject [(actualField, direction)]
              else ob)))"

section \<open>The facade (BuildQueryFilter.ts)\<close>

record BuildQueryFilter =
  self_specification :: "QuerySpecification option"
  self_transformConfig :: "TransformConfig option"

record BuildQueryResult =
  query :: PrismaQueryOptions
  validation :: ValidationResult

definition build :: "platform \<Rightarrow> BuildQueryFilter \<Rightarrow> FilteringQuery \<Rightarrow> error + BuildQueryResult" where
  "build P self f =
     (let v = validateQuery P f (self_specification self);
          q0 = buildFilterQuery f
      in case (case self_transformConfig self of
                 None \<Rightarrow> Inr q0
               | Some config \<Rightarrow>
                   if truthy (qwhere q0) then
                     (case transformWhereClause P (qwhere q0) config of
                        Inl e \<Rightarrow> Inl e
                      | Inr w \<Rightarrow> Inr (q0\<lparr>qwhere := w\<rparr>))
                   else Inr q0) of
           Inl e \<Rightarrow> Inl e
         | Inr q1 \<Rightarrow>
             (let q2 = (case self_transformConfig self of
                          None \<Rightarrow> q1
                        | Some config \<Rightarrow>
                            if truthy (orderBy q1)
                            then q1\<lparr>orderBy := transformOrderBy (orderBy q1) config\<rparr>
                            else q1)
              in Inr \<lparr>query = q2, validation = v\<rparr>))"

definition buildWithoutValidation ::
  "platform \<Rightarrow> BuildQueryFilter \<Rightarrow> FilteringQuery \<Rightarrow> error + PrismaQueryOptions" where
  "buildWithoutValidation P self f =
     (let q0 = buildFilterQuery f
      in case (case self_transformConfig self of
                 None \<Rightarrow> Inr q0
               | Some config \<Rightarrow>
                   if truthy (qwhere q0) then
                     (case transformWhereClause P (qwhere q0) config of
                        Inl e \<Rightarrow> Inl e
                      | Inr w \<Rightarrow> Inr (q0\<lparr>qwhere := w\<rparr>))
                   else Inr q0) of
           Inl e \<Rightarrow> Inl e
         | Inr q1 \<Rightarrow>
             Inr (case self_transformConfig self of
                    None \<Rightarrow> q1
                  | Some config \<Rightarrow>
                      if truthy (orderBy q1)
                      then q1\<lparr>orderBy := transformOrderBy (orderBy q1) config\<rparr>
                      else q1))"

definition validate :: "platform \<Rightarrow> BuildQueryFilter \<Rightarrow> FilteringQuery \<Rightarrow> ValidationResult" where
  "validate P self f = validateQuery P f (self_specification self)"

definition setSpecification :: "BuildQueryFilter \<Rightarrow> QuerySpecification \<Rightarrow> BuildQueryFilter" where
  "setSpecification self spec = self\<lparr>self_specification := Some spec\<rparr>"

definition setTransformConfig :: "BuildQueryFilter \<Rightarrow> TransformConfig \<Rightarrow> BuildQueryFilter" where
  "setTransformConfig self config = self\<lparr>self_transformConfig := Some config\<rparr>"

section \<open>Vocabulary of the properties\<close>

text \<open>A request with every field unset.\<close>

definition empty_request :: FilteringQuery where
  "empty_request = \<lparr>filters = None, searchFilters = None, rangedFilters = None,
     orderKey = None, orderRule = None, page = None, rows = None\<rparr>"

text \<open>
  The equality-style predicate of one value under a key: \<^verbatim>\<open>{[key]: val}\<close>, or
  \<^verbatim>\<open>{[relation]: {[column]: val}}\<close> for a dotted key.  The entry of a filter key is
  that predicate, or for an array value the \<^verbatim>\<open>OR\<close> of the predicates of its elements.
\<close>

definition equality_predicate :: "string \<Rightarrow> jv \<Rightarrow> jv" where
  "equality_predicate k val =
     (if includes_dot k
      then JObject [(part (split_dot k) 0, JObject [(part (split_dot k) 1, val)])]
      else JObject [(k, val)])"

definition filter_entry :: "string \<Rightarrow> jv \<Rightarrow> jv" where
  "filter_entry k v =
     (case v of
        JArray vals \<Rightarrow> JObject [(''OR'', JArray (map (equality_predicate k) vals))]
      | _ \<Rightarrow> equality_predicate k v)"

text \<open>
  The order in which \<^verbatim>\<open>Object.entries\<close> enumerates an object whose properties were
  created in the order \<open>ins\<close> (each key once): first the keys that are array indices
  (the decimal numerals without a leading zero of the integers below \<^verbatim>\<open>2^32 - 1\<close>), in
  ascending numeric order, then every other key in the order of its creation.
\<close>

definition is_array_index :: "string \<Rightarrow> bool" where
  "is_array_index k =
     (k \<noteq> [] \<and> list_all is_digit k \<and> (k = ''0'' \<or> hd k \<noteq> CHR ''0'')
      \<and> digits_value k < 2 ^ 32 - 1)"

definition own_property_order :: "(string \<times> jv) list \<Rightarrow> (string \<times> jv) list" where
  "own_property_order ins =
     sort_key (\<lambda>(k, v). digits_value k) (filter (\<lambda>(k, v). is_array_index k) ins)
     @ filter (\<lambda>(k, v). \<not> is_array_index k) ins"

text \<open>An engine for the examples: it decodes only \<^verbatim>\<open>{}\<close> and parses only three dates.\<close>

definition sample_platform :: platform where
  "sample_platform =
     \<lparr>JSON_parse = (\<lambda>s. if s = ''{}'' then Some (JObject []) else None),
      Date_parse = (\<lambda>s. if s = ''2023-12-31T00:00:00Z'' then Some 1703980800000
                         else if s = ''2023-12-31T00:00:00.5Z'' then Some 1703980800500
                         else if s = ''2023-01-01T00:00:00Z'' then Some 1672531200000
                         else None),
      Number_of_string = (\<lambda>s. NaN),
      Number_toString = (\<lambda>n. case n of Num i \<Rightarrow> (if i < 0 then ''-'' @ digits10 (nat (- i)) else digits10 (nat i))
                                   | _ \<Rightarrow> ''NaN''),
      parseInt_approx = double_of_int,
      isNaN_object = (\<lambda>v. Inr True),
      Date_of_object = (\<lambda>v. Inr None),
      assign_exotic = (\<lambda>v k x. v)\<rparr>"

text \<open>A configuration whose mappings and handler tables are all empty.\<close>

definition empty_config :: TransformConfig where
  "empty_config = \<lparr>fieldMappings = Map.empty, fieldNameMappings = Map.empty,
     fieldTypeHandlers = Map.empty, relationHandlers = Map.empty\<rparr>"

text \<open>Three specifications for the examples.\<close>

definition allow_a :: QuerySpecification where
  "allow_a = \<lparr>allowedFields = Some [''a''], allowedRelations = None,
     maxPageSize = None, forbiddenFields = None\<rparr>"

definition forbid_b :: QuerySpecification where
  "forbid_b = \<lparr>allowedFields = None, allowedRelations = None,
     maxPageSize = None, forbiddenFields = Some [''b'']\<rparr>"

definition allow_a_forbid_b :: QuerySpecification where
  "allow_a_forbid_b = \<lparr>allowedFields = Some [''a''], allowedRelations = None,
     maxPageSize = None, forbiddenFields = Some [''b'']\<rparr>"

text \<open>
  A date-ordering error is an error that starts with \<^verbatim>\<open>Range start date\<close>.  A ranged
  filter violates the date order when both bounds are strings matching the pattern of
  \<^verbatim>\<open>isValidDate\<close>, both parse to a valid date, and the start is strictly later than the
  end.
\<close>

definition is_date_order_error :: "string \<Rightarrow> bool" where
  "is_date_order_error e = (take 17 e = ''Range start date '')"

definition date_order_violation :: "platform \<Rightarrow> RangedFilter \<Rightarrow> bool" where
  "date_order_violation P rng =
     (case (start rng, end_r rng) of
        (JString s, JString e) \<Rightarrow>
          dateRegex_test s \<and> dateRegex_test e \<and>
          (case (Date_parse P s, Date_parse P e) of (Some a, Some b) \<Rightarrow> a > b | _ \<Rightarrow> False)
      | _ \<Rightarrow> False)"

text \<open>
  The pattern of the specification, \<^verbatim>\<open>YYYY-MM-DDTHH:mm:ss[.fff]Z\<close>, read as a shape: each
  of the letters \<^verbatim>\<open>Y\<close>, \<^verbatim>\<open>M\<close>, \<^verbatim>\<open>D\<close>, \<^verbatim>\<open>H\<close>, \<^verbatim>\<open>m\<close>, \<^verbatim>\<open>s\<close>, \<^verbatim>\<open>f\<close> stands for one digit, every
  other character for itself, and the bracketed part (a dot and three digits) is
  optional.
\<close>

definition shape_char :: "char \<Rightarrow> char \<Rightarrow> bool" where
  "shape_char p c = (if p \<in> set ''YMDHmsf'' then is_digit c else c = p)"

definition matches_shape :: "string \<Rightarrow> string \<Rightarrow> bool" where
  "matches_shape shape s = list_all2 shape_char shape s"

definition iso_utc_pattern :: "string \<Rightarrow> bool" where
  "iso_utc_pattern s =
     (matches_shape ''YYYY-MM-DDTHH:mm:ssZ'' s \<or> matches_shape ''YYYY-MM-DDTHH:mm:ss.fffZ'' s)"

text \<open>
  The same pattern with a fraction of any length: runs of four and two digits between
  the separators, then optionally a dot and one or more digits, then \<^verbatim>\<open>Z\<close>.
\<close>

definition digit_run :: "nat \<Rightarrow> string \<Rightarrow> bool" where
  "digit_run n ds = (length ds = n \<and> list_all is_digit ds)"

definition utc_pattern_any_fraction :: "string \<Rightarrow> bool" where
  "utc_pattern_any_fraction s =
     (\<exists>y mo d hh mi se fr.
        s = y @ ''-'' @ mo @ ''-'' @ d @ ''T'' @ hh @ '':'' @ mi @ '':'' @ se @ fr @ ''Z''
        \<and> digit_run 4 y \<and> digit_run 2 mo \<and> digit_run 2 d
        \<and> digit_run 2 hh \<and> digit_run 2 mi \<and> digit_run 2 se
        \<and> (fr = [] \<or> (\<exists>ds. ds \<noteq> [] \<and> list_all is_digit ds \<and> fr = ''.'' @ ds)))"

text \<open>
  What the extractor is to store for a parameter, read off the parameter itself: nothing
  for an absent parameter or an empty string; for a string, or the first string of an
  array, the decoded value (nothing if the decoding fails), the text, or the parsed
  integer; \<^verbatim>\<open>undefined\<close> (as an integer, \<^verbatim>\<open>NaN\<close>) for an empty array.
\<close>

definition expected_decoded :: "platform \<Rightarrow> param option \<Rightarrow> jv option" where
  "expected_decoded P x =
     (case x of
        None \<Rightarrow> None
      | Some (PString s) \<Rightarrow> if s = [] then None else JSON_parse P s
      | Some (PArray []) \<Rightarrow> Some JUndefined
      | Some (PArray (s # rest)) \<Rightarrow> JSON_parse P s)"

definition expected_text :: "param option \<Rightarrow> jv option" where
  "expected_text x =
     (case x of
        None \<Rightarrow> None
      | Some (PString s) \<Rightarrow> if s = [] then None else Some (JString s)
      | Some (PArray []) \<Rightarrow> Some JUndefined
      | Some (PArray (s # rest)) \<Rightarrow> Some (JString s))"

definition expected_int :: "platform \<Rightarrow> param option \<Rightarrow> jsnum option" where
  "expected_int P x =
     (case x of
        None \<Rightarrow> None
      | Some (PString s) \<Rightarrow> if s = [] then None else Some (parseInt_string P s)
      | Some (PArray []) \<Rightarrow> Some NaN
      | Some (PArray (s # rest)) \<Rightarrow> Some (parseInt_string P s))"

text \<open>The decoding of a parameter fails when \<^verbatim>\<open>JSON.parse\<close> throws on its string; the
  failure is reported on the console.\<close>

definition decode_fails :: "platform \<Rightarrow> param option \<Rightarrow> bool" where
  "decode_fails P x =
     (case x of
        Some (PString s) \<Rightarrow> s \<noteq> [] \<and> JSON_parse P s = None
      | Some (PArray (s # rest)) \<Rightarrow> JSON_parse P s = None
      | _ \<Rightarrow> False)"

definition expected_warning :: "platform \<Rightarrow> string \<Rightarrow> param option \<Rightarrow> string list" where
  "expected_warning P k x = (if decode_fails P x then [''Failed to parse '' @ k @ '':''] else [])"

text \<open>
  The normal form claim C6 speaks of, in the words of the specification: the tree keeps
  its \<^verbatim>\<open>AND\<close>/\<^verbatim>\<open>OR\<close> structure, its keys and its order, and a scalar value under a key is
  put into its default predicate wrapper, \<^verbatim>\<open>{contains: v}\<close> for a string and
  \<^verbatim>\<open>{equals: v}\<close> for a number or a boolean; a value that is an object already (a
  predicate, or the column object of a relation) is kept.
\<close>

definition scalar :: "jv \<Rightarrow> bool" where
  "scalar v = (case v of JString s \<Rightarrow> True | JNumber n \<Rightarrow> True | JBool b \<Rightarrow> True | _ \<Rightarrow> False)"

definition spec_default_wrapper :: "jv \<Rightarrow> jv" where
  "spec_default_wrapper v =
     (case v of
        JString s \<Rightarrow> JObject [(''contains'', v)]
      | JNumber n \<Rightarrow> JObject [(''equals'', v)]
      | JBool b \<Rightarrow> JObject [(''equals'', v)]
      | _ \<Rightarrow> v)"

definition spec_normalized_leaf :: "jv \<Rightarrow> jv" where
  "spec_normalized_leaf c =
     (case c of
        JObject kvs \<Rightarrow> JObject (map (\<lambda>(k, v). (k, spec_default_wrapper v)) kvs)
      | _ \<Rightarrow> c)"

definition spec_normalized_condition :: "jv \<Rightarrow> jv" where
  "spec_normalized_condition c =
     (case c of
        JObject [(k, JArray cs)] \<Rightarrow>
          if k = ''OR'' then JObject [(''OR'', JArray (map spec_normalized_leaf cs))]
          else spec_normalized_leaf c
      | _ \<Rightarrow> spec_normalized_leaf c)"

definition spec_normalized_tree :: "jv \<Rightarrow> jv" where
  "spec_normalized_tree w =
     (case w of
        JObject [(k, JArray cs)] \<Rightarrow>
          if k = ''AND'' then JObject [(''AND'', JArray (map spec_normalized_condition cs))] else w
      | _ \<Rightarrow> w)"

text \<open>
  The names of the members of \<^verbatim>\<open>Object.prototype\<close>.  The tables of a configuration
  are plain objects, so looking such a name up finds the inherited member; the model
  looks up own keys only, and a plain request has no such key.
\<close>

definition prototype_names :: "string list" where
  "prototype_names =
     [''constructor'', ''hasOwnProperty'', ''isPrototypeOf'', ''propertyIsEnumerable'',
      ''toLocaleString'', ''toString'', ''valueOf'', ''__proto__'',
      ''__defineGetter__'', ''__defineSetter__'', ''__lookupGetter__'', ''__lookupSetter__'']"

text \<open>
  A plain request: no ranged filter, no dotted key, no key that names a member of
  \<^verbatim>\<open>Object.prototype\<close>, every filter value a string, a number, a boolean or a
  non-empty array of those, every search value a string (\<^verbatim>\<open>null\<close> and \<^verbatim>\<open>undefined\<close>
  values are allowed for both, the compiler skips them).
\<close>

definition plain_key :: "string \<Rightarrow> bool" where
  "plain_key k = (\<not> includes_dot k \<and> k \<notin> set prototype_names)"

definition plain_filter_value :: "jv \<Rightarrow> bool" where
  "plain_filter_value v =
     (nullish v \<or> scalar v \<or> (case v of JArray vs \<Rightarrow> vs \<noteq> [] \<and> list_all scalar vs | _ \<Rightarrow> False))"

definition plain_search_value :: "jv \<Rightarrow> bool" where
  "plain_search_value v = (nullish v \<or> (case v of JString s \<Rightarrow> True | _ \<Rightarrow> False))"

definition plain_request :: "FilteringQuery \<Rightarrow> bool" where
  "plain_request f =
     ((case filters f of
         None \<Rightarrow> True
       | Some fs \<Rightarrow> list_all (\<lambda>(k, v). plain_key k \<and> plain_filter_value v) fs)
      \<and> (case searchFilters f of
            None \<Rightarrow> True
          | Some ss \<Rightarrow> list_all (\<lambda>(k, v). plain_key k \<and> plain_search_value v) ss)
      \<and> (case rangedFilters f of None \<Rightarrow> True | Some rs \<Rightarrow> rs = []))"

text \<open>A condition that the transformer, under the empty configuration, turns into its
  normal form, which is then kept in the sequence.\<close>

definition transforms_to_normal :: "platform \<Rightarrow> jv \<Rightarrow> bool" where
  "transforms_to_normal P c =
     (transform_AND_element P empty_config c = Inr (spec_normalized_condition c)
      \<and> nonempty_condition (spec_normalized_condition c))"

section \<open>The compiler: filters\<close>

lemma where_condition_entry: "where_condition k v = filter_entry k v"
  by (cases v) (simp_all add: where_condition_def filter_entry_def equality_predicate_def Let_def)

lemma buildWhereQuery_loop_eq:
  "buildWhereQuery_loop fs acc =
     acc @ map (\<lambda>(k, v). where_condition k v) (filter (\<lambda>(k, v). \<not> nullish v) fs)"
  by (induction fs acc rule: buildWhereQuery_loop.induct) simp_all

lemma buildWhereQuery_eq:
  "buildWhereQuery fs = map (\<lambda>(k, v). filter_entry k v) (filter (\<lambda>(k, v). \<not> nullish v) fs)"
  by (simp add: buildWhereQuery_def buildWhereQuery_loop_eq where_condition_entry)

lemma where_AND_buildFilterQuery:
  "where_AND (buildFilterQuery f) =
     (case filters f of None \<Rightarrow> [] | Some fs \<Rightarrow> buildWhereQuery fs)
     @ (case searchFilters f of None \<Rightarrow> [] | Some ss \<Rightarrow> buildSearchQuery ss)
     @ (case rangedFilters f of None \<Rightarrow> [] | Some rs \<Rightarrow> buildRangedFilter rs)"
  by (simp add: where_AND_def buildFilterQuery_def Let_def split: option.splits prod.splits)

lemma own_property_order_no_index:
  assumes "list_all (\<lambda>(k, v). \<not> is_array_index k) ins"
  shows "own_property_order ins = ins"
proof -
  have "filter (\<lambda>(k, v). is_array_index k) ins = []"
    using assms by (auto simp add: filter_empty_conv list_all_iff)
  moreover have "filter (\<lambda>(k, v). \<not> is_array_index k) ins = ins"
    using assms by (auto simp add: filter_id_conv list_all_iff)
  ultimately show ?thesis
    by (simp add: own_property_order_def)
qed

text \<open>
  Claim C1, as amended.  Let the \<^verbatim>\<open>filters\<close> map of the request have its keys inserted
  in the order \<open>ins\<close>.  Then \<^verbatim>\<open>where.AND\<close> of the compiled query starts with exactly one
  entry per key whose value is neither \<^verbatim>\<open>null\<close> nor \<^verbatim>\<open>undefined\<close>, in the order in which
  the map is enumerated: first the keys that are array indices, in ascending numeric
  order, then the other keys in insertion order; the search and range conditions
  follow.  If no key is an array index, this is the insertion order.  The entry of a key
  whose value is an array of length n is an \<^verbatim>\<open>OR\<close> of n equality-style predicates, one per
  element and in the order of the elements.
\<close>

theorem filters_one_entry_per_key:
  assumes "filters f = Some (own_property_order ins)" and "distinct (map fst ins)"
  shows "where_AND (buildFilterQuery f) =
           map (\<lambda>(k, v). filter_entry k v)
             (filter (\<lambda>(k, v). \<not> nullish v)
                (sort_key (\<lambda>(k, v). digits_value k) (filter (\<lambda>(k, v). is_array_index k) ins)))
           @ map (\<lambda>(k, v). filter_entry k v)
               (filter (\<lambda>(k, v). \<not> nullish v) (filter (\<lambda>(k, v). \<not> is_array_index k) ins))
           @ (case searchFilters f of None \<Rightarrow> [] | Some ss \<Rightarrow> buildSearchQuery ss)
           @ (case rangedFilters f of None \<Rightarrow> [] | Some rs \<Rightarrow> buildRangedFilter rs)
         \<and> (list_all (\<lambda>(k, v). \<not> is_array_index k) ins \<longrightarrow>
              where_AND (buildFilterQuery f) =
                map (\<lambda>(k, v). filter_entry k v) (filter (\<lambda>(k, v). \<not> nullish v) ins)
                @ (case searchFilters f of None \<Rightarrow> [] | Some ss \<Rightarrow> buildSearchQuery ss)
                @ (case rangedFilters f of None \<Rightarrow> [] | Some rs \<Rightarrow> buildRangedFilter rs))
         \<and> filter_entry k (JArray vals) = JObject [(''OR'', JArray (map (equality_predicate k) vals))]
         \<and> length (map (equality_predicate k) vals) = length vals"
proof -
  have all: "where_AND (buildFilterQuery f) =
           map (\<lambda>(k, v). filter_entry k v) (filter (\<lambda>(k, v). \<not> nullish v) (own_property_order ins))
           @ (case searchFilters f of None \<Rightarrow> [] | Some ss \<Rightarrow> buildSearchQuery ss)
           @ (case rangedFilters f of None \<Rightarrow> [] | Some rs \<Rightarrow> buildRangedFilter rs)"
    using assms(1) by (simp add: where_AND_buildFilterQuery buildWhereQuery_eq)
  have split_order: "where_AND (buildFilterQuery f) =
           map (\<lambda>(k, v). filter_entry k v)
             (filter (\<lambda>(k, v). \<not> nullish v)
                (sort_key (\<lambda>(k, v). digits_value k) (filter (\<lambda>(k, v). is_array_index k) ins)))
           @ map (\<lambda>(k, v). filter_entry k v)
               (filter (\<lambda>(k, v). \<not> nullish v) (filter (\<lambda>(k, v). \<not> is_array_index k) ins))
           @ (case searchFilters f of None \<Rightarrow> [] | Some ss \<Rightarrow> buildSearchQuery ss)
           @ (case rangedFilters f of None \<Rightarrow> [] | Some rs \<Rightarrow> buildRangedFilter rs)"
    unfolding all own_property_order_def by simp
  have plain: "where_AND (buildFilterQuery f) =
                map (\<lambda>(k, v). filter_entry k v) (filter (\<lambda>(k, v). \<not> nullish v) ins)
                @ (case searchFilters f of None \<Rightarrow> [] | Some ss \<Rightarrow> buildSearchQuery ss)
                @ (case rangedFilters f of None \<Rightarrow> [] | Some rs \<Rightarrow> buildRangedFilter rs)"
    if "list_all (\<lambda>(k, v). \<not> is_array_index k) ins"
    unfolding all own_property_order_no_index [OF that] by simp
  have arr: "filter_entry k (JArray vals) = JObject [(''OR'', JArray (map (equality_predicate k) vals))]"
    by (simp add: filter_entry_def)
  show ?thesis
    using split_order plain arr by simp
qed

theorem filters_one_entry_per_key_witness:
  "where_AND (buildFilterQuery (empty_request\<lparr>filters :=
       Some (own_property_order [(''status'', JString ''active''), (''gone'', JNull),
             (''category'', JArray [JString ''a'', JString ''b''])])\<rparr>))
   = [JObject [(''status'', JString ''active'')],
      JObject [(''OR'', JArray [JObject [(''category'', JString ''a'')],
                                JObject [(''category'', JString ''b'')]])]]"
proof -
  have no_index: "list_all (\<lambda>(k, v). \<not> is_array_index k)
      [(''status'', JString ''active''), (''gone'', JNull),
       (''category'', JArray [JString ''a'', JString ''b''])]"
    by (simp add: is_array_index_def is_digit_def)
  show ?thesis
    using filters_one_entry_per_key [of "empty_request\<lparr>filters :=
       Some (own_property_order [(''status'', JString ''active''), (''gone'', JNull),
             (''category'', JArray [JString ''a'', JString ''b''])])\<rparr>"
       "[(''status'', JString ''active''), (''gone'', JNull),
             (''category'', JArray [JString ''a'', JString ''b''])]"] no_index
    by (simp add: empty_request_def filter_entry_def equality_predicate_def includes_dot_def)
qed

text \<open>
  Claim C1 as stated fails for a map with a key that is an array index: with \<^verbatim>\<open>b\<close>
  inserted before \<^verbatim>\<open>1\<close>, the entry of \<^verbatim>\<open>1\<close> comes first, so the entries are not in
  insertion order.
\<close>

theorem filters_index_keys_first_counterexample:
  "where_AND (buildFilterQuery (empty_request\<lparr>filters :=
       Some (own_property_order [(''b'', JString ''x''), (''1'', JString ''y'')])\<rparr>))
     = [JObject [(''1'', JString ''y'')], JObject [(''b'', JString ''x'')]]
   \<and> where_AND (buildFilterQuery (empty_request\<lparr>filters :=
       Some (own_property_order [(''b'', JString ''x''), (''1'', JString ''y'')])\<rparr>))
     \<noteq> map (\<lambda>(k, v). filter_entry k v) [(''b'', JString ''x''), (''1'', JString ''y'')]"
  by (simp add: empty_request_def own_property_order_def is_array_index_def is_digit_def
        digits_value_def digit_value_def where_AND_def buildFilterQuery_def buildWhereQuery_def
        where_condition_def filter_entry_def equality_predicate_def includes_dot_def
        buildPagination_def truthy_opt_def Let_def)

section \<open>The compiler: dotted keys\<close>






section \<open>The compiler: search filters\<close>

lemma buildSearchQuery_loop_eq:
  "buildSearchQuery_loop m ss (w, orq) =
     (if m then (w, orq @ map (\<lambda>(k, v). searchQuery k v) (filter (\<lambda>(k, v). \<not> nullish v) ss))
      else (w @ map (\<lambda>(k, v). searchQuery k v) (filter (\<lambda>(k, v). \<not> nullish v) ss), orq))"
  by (induction m ss "(w, orq)" arbitrary: w orq rule: buildSearchQuery_loop.induct) auto

lemma buildSearchQuery_eq:
  "buildSearchQuery ss =
     (let preds = map (\<lambda>(k, v). searchQuery k v) (filter (\<lambda>(k, v). \<not> nullish v) ss) in
      if length ss > 1 then (if preds = [] then [] else [JObject [(''OR'', JArray preds)]])
      else preds)"
  by (simp add: buildSearchQuery_def buildSearchQuery_loop_eq Let_def)

text \<open>
  Claim C2, as amended.  The compiler counts the keys of \<^verbatim>\<open>searchFilters\<close>, those with
  a \<^verbatim>\<open>null\<close> or \<^verbatim>\<open>undefined\<close> value included.  With at most one key, the
  contains-predicate of the key is appended directly to \<^verbatim>\<open>AND\<close> (nothing if its value is
  \<^verbatim>\<open>null\<close> or \<^verbatim>\<open>undefined\<close>).  With more than one key, exactly one \<^verbatim>\<open>OR\<close> is
  appended, wrapping the contains-predicates of the entries whose value is neither
  \<^verbatim>\<open>null\<close> nor \<^verbatim>\<open>undefined\<close>, in order, even when only one such entry is left;
  nothing is appended when no such entry is left.
\<close>

theorem search_or_wrapper_by_key_count:
  assumes "searchFilters f = Some ss"
  shows "where_AND (buildFilterQuery f) =
           (case filters f of None \<Rightarrow> [] | Some fs \<Rightarrow> buildWhereQuery fs)
           @ (let preds = map (\<lambda>(k, v). searchQuery k v) (filter (\<lambda>(k, v). \<not> nullish v) ss) in
              if length ss > 1 then (if preds = [] then [] else [JObject [(''OR'', JArray preds)]])
              else preds)
           @ (case rangedFilters f of None \<Rightarrow> [] | Some rs \<Rightarrow> buildRangedFilter rs)"
  using assms by (simp add: where_AND_buildFilterQuery buildSearchQuery_eq)

theorem search_or_wrapper_by_key_count_witness:
  "where_AND (buildFilterQuery (empty_request\<lparr>searchFilters :=
       Some [(''title'', JString ''x''), (''desc'', JString ''y'')]\<rparr>))
     = [JObject [(''OR'', JArray [JObject [(''title'', JObject [(''contains'', JString ''x'')])],
                                  JObject [(''desc'', JObject [(''contains'', JString ''y'')])]])]]
   \<and> where_AND (buildFilterQuery (empty_request\<lparr>searchFilters := Some [(''title'', JString ''x'')]\<rparr>))
     = [JObject [(''title'', JObject [(''contains'', JString ''x'')])]]"
  using search_or_wrapper_by_key_count [of "empty_request\<lparr>searchFilters :=
       Some [(''title'', JString ''x''), (''desc'', JString ''y'')]\<rparr>"
       "[(''title'', JString ''x''), (''desc'', JString ''y'')]"]
     search_or_wrapper_by_key_count [of "empty_request\<lparr>searchFilters := Some [(''title'', JString ''x'')]\<rparr>"
       "[(''title'', JString ''x'')]"]
  by (simp add: empty_request_def searchQuery_def includes_dot_def)

text \<open>
  Claim C2 as stated fails on maps with \<^verbatim>\<open>null\<close> values: one search value and one
  \<^verbatim>\<open>null\<close> give an \<^verbatim>\<open>OR\<close> around a single predicate, and two \<^verbatim>\<open>null\<close> values give
  no \<^verbatim>\<open>OR\<close> at all.
\<close>

theorem search_null_values_counterexample:
  "where_AND (buildFilterQuery (empty_request\<lparr>searchFilters :=
       Some [(''title'', JString ''x''), (''desc'', JNull)]\<rparr>))
     = [JObject [(''OR'', JArray [JObject [(''title'', JObject [(''contains'', JString ''x'')])]])]]
   \<and> where_AND (buildFilterQuery (empty_request\<lparr>searchFilters :=
       Some [(''title'', JNull), (''desc'', JNull)]\<rparr>)) = []"
  by (simp add: empty_request_def where_AND_def buildFilterQuery_def buildSearchQuery_def
        searchQuery_def includes_dot_def buildPagination_def truthy_opt_def Let_def)

section \<open>The compiler: pagination\<close>

lemma double_of_int_exact: "\<bar>n\<bar> < 2 ^ 53 \<Longrightarrow> double_of_int n = Num n"
  by (simp add: double_of_int_def Let_def, arith)

lemma pagination_of:
  "qtake (buildFilterQuery f) = fst (buildPagination f)"
  "qskip (buildFilterQuery f) = snd (buildPagination f)"
  by (simp_all add: buildFilterQuery_def Let_def split: prod.splits)

text \<open>
  Claim C3, as amended.  Pagination goes by the truthiness of \<^verbatim>\<open>page\<close> and \<^verbatim>\<open>rows\<close>, and
  the offset is computed in double arithmetic.  With a truthy page and truthy rows,
  \<^verbatim>\<open>take\<close> is the rows and \<^verbatim>\<open>skip\<close> is the double product of the double difference
  \<^verbatim>\<open>page - 1\<close> and the rows.  With a truthy page and rows unset, zero or \<^verbatim>\<open>NaN\<close>, \<^verbatim>\<open>take\<close>
  is 10 and \<^verbatim>\<open>skip\<close> is the double product of 10 and \<^verbatim>\<open>page - 1\<close>.  With a page that is
  unset, zero or \<^verbatim>\<open>NaN\<close>, \<^verbatim>\<open>take\<close> is 10 and \<^verbatim>\<open>skip\<close> is 0 whatever the rows.  For an
  integer page p and integer rows r the products are the exact integers
  \<^verbatim>\<open>(p - 1) * r\<close> and \<^verbatim>\<open>10 * (p - 1)\<close> as long as \<^verbatim>\<open>p - 1\<close> and the product are below
  \<^verbatim>\<open>2^53\<close> in absolute value; beyond, the product is rounded to the nearest double.
\<close>

theorem pagination_by_truthiness:
  "(page f = Some x \<and> truthy_num x \<and> rows f = Some y \<and> truthy_num y \<longrightarrow>
      qtake (buildFilterQuery f) = y
      \<and> qskip (buildFilterQuery f) = num_mul (num_sub x (Num 1)) y)
   \<and> (page f = Some x \<and> truthy_num x
        \<and> (rows f = None \<or> rows f = Some (Num 0) \<or> rows f = Some NaN) \<longrightarrow>
      qtake (buildFilterQuery f) = Num 10
      \<and> qskip (buildFilterQuery f) = num_mul (Num 10) (num_sub x (Num 1)))
   \<and> ((page f = None \<or> page f = Some (Num 0) \<or> page f = Some NaN) \<longrightarrow>
      qtake (buildFilterQuery f) = Num 10 \<and> qskip (buildFilterQuery f) = Num 0)
   \<and> (\<bar>p - 1\<bar> < 2 ^ 53 \<and> \<bar>(p - 1) * r\<bar> < 2 ^ 53 \<longrightarrow>
      num_mul (num_sub (Num p) (Num 1)) (Num r) = Num ((p - 1) * r))
   \<and> (\<bar>p - 1\<bar> < 2 ^ 53 \<and> \<bar>10 * (p - 1)\<bar> < 2 ^ 53 \<longrightarrow>
      num_mul (Num 10) (num_sub (Num p) (Num 1)) = Num (10 * (p - 1)))"
proof -
  have a: "page f = Some x \<and> truthy_num x \<and> rows f = Some y \<and> truthy_num y \<longrightarrow>
      qtake (buildFilterQuery f) = y
      \<and> qskip (buildFilterQuery f) = num_mul (num_sub x (Num 1)) y"
    by (simp add: pagination_of buildPagination_def truthy_opt_def Let_def)
  have b: "page f = Some x \<and> truthy_num x
        \<and> (rows f = None \<or> rows f = Some (Num 0) \<or> rows f = Some NaN) \<longrightarrow>
      qtake (buildFilterQuery f) = Num 10
      \<and> qskip (buildFilterQuery f) = num_mul (Num 10) (num_sub x (Num 1))"
    by (auto simp add: pagination_of buildPagination_def truthy_opt_def Let_def)
  have c: "(page f = None \<or> page f = Some (Num 0) \<or> page f = Some NaN) \<longrightarrow>
      qtake (buildFilterQuery f) = Num 10 \<and> qskip (buildFilterQuery f) = Num 0"
    by (auto simp add: pagination_of buildPagination_def truthy_opt_def Let_def)
  have d: "\<bar>p - 1\<bar> < 2 ^ 53 \<and> \<bar>(p - 1) * r\<bar> < 2 ^ 53 \<longrightarrow>
      num_mul (num_sub (Num p) (Num 1)) (Num r) = Num ((p - 1) * r)"
    by (simp add: double_of_int_exact)
  have e: "\<bar>p - 1\<bar> < 2 ^ 53 \<and> \<bar>10 * (p - 1)\<bar> < 2 ^ 53 \<longrightarrow>
      num_mul (Num 10) (num_sub (Num p) (Num 1)) = Num (10 * (p - 1))"
    by (simp add: double_of_int_exact)
  from a b c d e show ?thesis by blast
qed

theorem pagination_by_truthiness_witness:
  "qtake (buildFilterQuery (empty_request\<lparr>page := Some (Num 2), rows := Some (Num 25)\<rparr>)) = Num 25
   \<and> qskip (buildFilterQuery (empty_request\<lparr>page := Some (Num 2), rows := Some (Num 25)\<rparr>)) = Num 25
   \<and> qtake (buildFilterQuery (empty_request\<lparr>page := Some (Num 3)\<rparr>)) = Num 10
   \<and> qskip (buildFilterQuery (empty_request\<lparr>page := Some (Num 3)\<rparr>)) = Num 20
   \<and> qtake (buildFilterQuery (empty_request\<lparr>rows := Some (Num 5)\<rparr>)) = Num 10
   \<and> qskip (buildFilterQuery (empty_request\<lparr>rows := Some (Num 5)\<rparr>)) = Num 0
   \<and> qskip (buildFilterQuery (empty_request\<lparr>page := Some (Num 94906268), rows := Some (Num 94906267)\<rparr>))
       = Num 9007199515875288"
  using pagination_by_truthiness [of "empty_request\<lparr>page := Some (Num 2), rows := Some (Num 25)\<rparr>"
           "Num 2" "Num 25" 2 25]
        pagination_by_truthiness [of "empty_request\<lparr>page := Some (Num 3)\<rparr>" "Num 3" NaN 3 0]
        pagination_by_truthiness [of "empty_request\<lparr>rows := Some (Num 5)\<rparr>" NaN NaN 0 0]
        pagination_by_truthiness [of "empty_request\<lparr>page := Some (Num 94906268), rows := Some (Num 94906267)\<rparr>"
           "Num 94906268" "Num 94906267" 0 0]
  by (simp add: empty_request_def double_of_int_def Let_def)

text \<open>
  Claim C3 as stated fails for a page that is set to zero: the page is set and the rows
  are set, yet \<^verbatim>\<open>take\<close> is 10 and \<^verbatim>\<open>skip\<close> is 0, not \<^verbatim>\<open>rows\<close> and
  \<^verbatim>\<open>(page - 1) * rows\<close>.
\<close>

theorem pagination_page_zero_counterexample:
  "qtake (buildFilterQuery (empty_request\<lparr>page := Some (Num 0), rows := Some (Num 5)\<rparr>)) = Num 10
   \<and> qskip (buildFilterQuery (empty_request\<lparr>page := Some (Num 0), rows := Some (Num 5)\<rparr>)) = Num 0
   \<and> \<not> (qtake (buildFilterQuery (empty_request\<lparr>page := Some (Num 0), rows := Some (Num 5)\<rparr>)) = Num 5
        \<and> qskip (buildFilterQuery (empty_request\<lparr>page := Some (Num 0), rows := Some (Num 5)\<rparr>)) = Num ((0 - 1) * 5))"
  by (simp add: empty_request_def buildFilterQuery_def buildPagination_def truthy_opt_def Let_def)

section \<open>The validator: allowed and forbidden fields\<close>

text \<open>
  Claim C4 (the code departs from it).  With \<^verbatim>\<open>allowedFields = ['a']\<close>, the filter
  \<^verbatim>\<open>b\<close> yields one warning; with \<^verbatim>\<open>forbiddenFields = ['b']\<close> added it yields one error
  and no warning.  The same forbidden field as a search field, a range field or the order
  key yields only the warning, and the request stays valid: \<^verbatim>\<open>forbiddenFields\<close> is read
  by \<^verbatim>\<open>validateFilters\<close> alone, and only for a field that \<^verbatim>\<open>allowedFields\<close> does not
  list: with \<^verbatim>\<open>forbiddenFields = ['b']\<close> and no \<^verbatim>\<open>allowedFields\<close> the filter \<^verbatim>\<open>b\<close>
  yields neither error nor warning.
\<close>

theorem forbidden_field_only_checked_for_filters:
  "validateQuery P (empty_request\<lparr>filters := Some [(''b'', JNumber (Num 1))]\<rparr>) (Some allow_a)
     = \<lparr>isValid = True, errors = [],
        warnings = [''Field '' @ apo @ ''b'' @ apo @ '' is not in allowed fields list'']\<rparr>
   \<and> validateQuery P (empty_request\<lparr>filters := Some [(''b'', JNumber (Num 1))]\<rparr>) (Some allow_a_forbid_b)
     = \<lparr>isValid = False, errors = [''Field '' @ apo @ ''b'' @ apo @ '' is forbidden''], warnings = []\<rparr>
   \<and> validateQuery P (empty_request\<lparr>searchFilters := Some [(''b'', JString ''x'')]\<rparr>) (Some allow_a_forbid_b)
     = \<lparr>isValid = True, errors = [],
        warnings = [''Search field '' @ apo @ ''b'' @ apo @ '' is not in allowed fields list'']\<rparr>
   \<and> validateQuery P (empty_request\<lparr>rangedFilters :=
          Some [\<lparr>key = ''b'', start = JNumber (Num 1), end_r = JNumber (Num 2)\<rparr>]\<rparr>) (Some allow_a_forbid_b)
     = \<lparr>isValid = True, errors = [],
        warnings = [''Range field '' @ apo @ ''b'' @ apo @ '' is not in allowed fields list'']\<rparr>
   \<and> validateQuery P (empty_request\<lparr>orderKey := Some ''b''\<rparr>) (Some allow_a_forbid_b)
     = \<lparr>isValid = True, errors = [],
        warnings = [''Order field '' @ apo @ ''b'' @ apo @ '' is not in allowed fields list'']\<rparr>
   \<and> validateQuery P (empty_request\<lparr>filters := Some [(''b'', JNumber (Num 1))]\<rparr>) (Some forbid_b)
     = \<lparr>isValid = True, errors = [], warnings = []\<rparr>"
  by (simp add: validateQuery_def empty_request_def allow_a_def allow_a_forbid_b_def forbid_b_def
        validateFilters_def validateFilters_step_def validateSearchFilters_def
        validateSearchFilters_step_def validateRangedFilters_def validateRangedFilters_step_def
        validateOrderKey_def validatePagination_def not_in_list_def in_list_def includes_dot_def
        isValidDate_def Let_def)

section \<open>The validator: date order of ranged filters\<close>

lemma date_order_error_is: "is_date_order_error (date_order_error rng)"
  by (simp add: is_date_order_error_def date_order_error_def)

lemma validateFilters_step_date:
  "filter is_date_order_error (fst (validateFilters_step spec x st)) = filter is_date_order_error (fst st)"
  by (cases x; cases st)
     (simp add: validateFilters_step_def is_date_order_error_def Let_def)

lemma validateFilters_date:
  "filter is_date_order_error (fst (validateFilters fs spec st)) = filter is_date_order_error (fst st)"
  unfolding validateFilters_def
  by (induction fs arbitrary: st) (simp_all add: validateFilters_step_date)

lemma validateSearchFilters_step_date:
  "filter is_date_order_error (fst (validateSearchFilters_step spec x st)) = filter is_date_order_error (fst st)"
  by (cases x; cases st)
     (simp add: validateSearchFilters_step_def is_date_order_error_def Let_def)

lemma validateSearchFilters_date:
  "filter is_date_order_error (fst (validateSearchFilters ss spec st)) = filter is_date_order_error (fst st)"
  unfolding validateSearchFilters_def
  by (induction ss arbitrary: st) (simp_all add: validateSearchFilters_step_date)

lemma validateOrderKey_date:
  "filter is_date_order_error (fst (validateOrderKey k spec st)) = filter is_date_order_error (fst st)"
  by (cases st) (simp add: validateOrderKey_def is_date_order_error_def Let_def)

lemma validatePagination_date:
  "filter is_date_order_error (validatePagination P q spec errs) = filter is_date_order_error errs"
  by (simp add: validatePagination_def is_date_order_error_def Let_def split: option.splits)

lemma violation_iff:
  "date_order_violation P rng \<longleftrightarrow>
     isValidDate (start rng) \<and> isValidDate (end_r rng) \<and>
     date_after (Date_parse P (bound_text (start rng))) (Date_parse P (bound_text (end_r rng)))"
  by (auto simp add: date_order_violation_def isValidDate_def date_after_def bound_text_def
        split: jv.splits option.splits)

lemma validateRangedFilters_step_date:
  "filter is_date_order_error (fst (validateRangedFilters_step P spec rng st)) =
     filter is_date_order_error (fst st) @ (if date_order_violation P rng then [date_order_error rng] else [])"
  by (cases st)
     (simp add: validateRangedFilters_step_def violation_iff date_order_error_is Let_def,
      simp add: is_date_order_error_def)

lemma validateRangedFilters_date:
  "filter is_date_order_error (fst (validateRangedFilters P rs spec st)) =
     filter is_date_order_error (fst st) @ map date_order_error (filter (date_order_violation P) rs)"
  unfolding validateRangedFilters_def
  by (induction rs arbitrary: st) (simp_all add: validateRangedFilters_step_date)

lemma digit_run_4:
  "digit_run 4 ds \<longleftrightarrow> (\<exists>a b c d. ds = [a, b, c, d] \<and> is_digit a \<and> is_digit b \<and> is_digit c \<and> is_digit d)"
  by (auto simp add: digit_run_def length_Suc_conv numeral_eq_Suc)

lemma digit_run_2:
  "digit_run 2 ds \<longleftrightarrow> (\<exists>a b. ds = [a, b] \<and> is_digit a \<and> is_digit b)"
  by (auto simp add: digit_run_def length_Suc_conv numeral_eq_Suc)

lemma not_digit_Z: "\<not> is_digit CHR ''Z''"
  by (simp add: is_digit_def)

lemma date_tail_iff:
  "date_tail t \<longleftrightarrow> t = ''Z'' \<or> (\<exists>ds. ds \<noteq> [] \<and> list_all is_digit ds \<and> t = ''.'' @ ds @ ''Z'')"
proof
  assume "date_tail t"
  then show "t = ''Z'' \<or> (\<exists>ds. ds \<noteq> [] \<and> list_all is_digit ds \<and> t = ''.'' @ ds @ ''Z'')"
  proof (cases t)
    case Nil
    with \<open>date_tail t\<close> show ?thesis by (simp add: date_tail_def)
  next
    case (Cons c cs)
    show ?thesis
    proof (cases "c = CHR ''Z''")
      case True
      with Cons \<open>date_tail t\<close> show ?thesis by (simp add: date_tail_def)
    next
      case False
      with Cons \<open>date_tail t\<close> have c: "c = CHR ''.''" and nz: "takeWhile is_digit cs \<noteq> []"
        and dz: "dropWhile is_digit cs = ''Z''"
        by (simp_all add: date_tail_def)
      have "cs = takeWhile is_digit cs @ ''Z''"
        using takeWhile_dropWhile_id [of is_digit cs] dz by simp
      moreover have "list_all is_digit (takeWhile is_digit cs)"
        by (simp add: list_all_iff) (meson set_takeWhileD)
      ultimately show ?thesis
        using Cons c nz by (metis append_Cons append_Nil)
    qed
  qed
next
  assume "t = ''Z'' \<or> (\<exists>ds. ds \<noteq> [] \<and> list_all is_digit ds \<and> t = ''.'' @ ds @ ''Z'')"
  then show "date_tail t"
  proof
    assume "t = ''Z''"
    then show ?thesis by (simp add: date_tail_def)
  next
    assume "\<exists>ds. ds \<noteq> [] \<and> list_all is_digit ds \<and> t = ''.'' @ ds @ ''Z''"
    then obtain ds where ds: "ds \<noteq> []" "list_all is_digit ds" "t = ''.'' @ ds @ ''Z''"
      by blast
    have "takeWhile is_digit (ds @ ''Z'') = ds"
      using ds(2) not_digit_Z by (simp add: list_all_iff takeWhile_append2)
    moreover have "dropWhile is_digit (ds @ ''Z'') = ''Z''"
      using ds(2) not_digit_Z by (simp add: list_all_iff dropWhile_append2)
    ultimately show ?thesis
      using ds(1,3) by (simp add: date_tail_def)
  qed
qed

lemma date_head_iff:
  "date_head h \<longleftrightarrow>
     (\<exists>y mo d hh mi se. h = y @ ''-'' @ mo @ ''-'' @ d @ ''T'' @ hh @ '':'' @ mi @ '':'' @ se
        \<and> digit_run 4 y \<and> digit_run 2 mo \<and> digit_run 2 d
        \<and> digit_run 2 hh \<and> digit_run 2 mi \<and> digit_run 2 se)"
proof
  assume "date_head h"
  then have len: "length h = 19" by (simp add: date_head_def)
  then obtain c0 c1 c2 c3 c4 c5 c6 c7 c8 c9 c10 c11 c12 c13 c14 c15 c16 c17 c18
    where h: "h = [c0, c1, c2, c3, c4, c5, c6, c7, c8, c9, c10, c11, c12, c13, c14, c15, c16, c17, c18]"
    by (auto simp add: length_Suc_conv numeral_eq_Suc)
  have "h = [c0, c1, c2, c3] @ ''-'' @ [c5, c6] @ ''-'' @ [c8, c9] @ ''T'' @ [c11, c12] @ '':''
              @ [c14, c15] @ '':'' @ [c17, c18]
        \<and> digit_run 4 [c0, c1, c2, c3] \<and> digit_run 2 [c5, c6] \<and> digit_run 2 [c8, c9]
        \<and> digit_run 2 [c11, c12] \<and> digit_run 2 [c14, c15] \<and> digit_run 2 [c17, c18]"
    using \<open>date_head h\<close> unfolding h by (simp add: date_head_def digit_run_def)
  then show "\<exists>y mo d hh mi se. h = y @ ''-'' @ mo @ ''-'' @ d @ ''T'' @ hh @ '':'' @ mi @ '':'' @ se
        \<and> digit_run 4 y \<and> digit_run 2 mo \<and> digit_run 2 d
        \<and> digit_run 2 hh \<and> digit_run 2 mi \<and> digit_run 2 se"
    by blast
next
  assume "\<exists>y mo d hh mi se. h = y @ ''-'' @ mo @ ''-'' @ d @ ''T'' @ hh @ '':'' @ mi @ '':'' @ se
        \<and> digit_run 4 y \<and> digit_run 2 mo \<and> digit_run 2 d
        \<and> digit_run 2 hh \<and> digit_run 2 mi \<and> digit_run 2 se"
  then show "date_head h"
    by (auto simp add: digit_run_4 digit_run_2 date_head_def)
qed

lemma dateRegex_test_iff_pattern: "dateRegex_test s \<longleftrightarrow> utc_pattern_any_fraction s"
proof
  assume t: "dateRegex_test s"
  then obtain y mo d hh mi se where
      h: "take 19 s = y @ ''-'' @ mo @ ''-'' @ d @ ''T'' @ hh @ '':'' @ mi @ '':'' @ se"
      and runs: "digit_run 4 y" "digit_run 2 mo" "digit_run 2 d"
        "digit_run 2 hh" "digit_run 2 mi" "digit_run 2 se"
    unfolding dateRegex_test_def date_head_iff by blast
  from t have "drop 19 s = ''Z'' \<or> (\<exists>ds. ds \<noteq> [] \<and> list_all is_digit ds \<and> drop 19 s = ''.'' @ ds @ ''Z'')"
    unfolding dateRegex_test_def date_tail_iff by blast
  then obtain fr where fr: "drop 19 s = fr @ ''Z''"
      "fr = [] \<or> (\<exists>ds. ds \<noteq> [] \<and> list_all is_digit ds \<and> fr = ''.'' @ ds)"
    by (metis append_Nil append_assoc)
  have "s = take 19 s @ drop 19 s" by simp
  then have "s = y @ ''-'' @ mo @ ''-'' @ d @ ''T'' @ hh @ '':'' @ mi @ '':'' @ se @ fr @ ''Z''"
    unfolding h fr(1) by simp
  then show "utc_pattern_any_fraction s"
    unfolding utc_pattern_any_fraction_def using runs fr(2) by blast
next
  assume "utc_pattern_any_fraction s"
  then obtain y mo d hh mi se fr where
      s: "s = y @ ''-'' @ mo @ ''-'' @ d @ ''T'' @ hh @ '':'' @ mi @ '':'' @ se @ fr @ ''Z''"
      and runs: "digit_run 4 y" "digit_run 2 mo" "digit_run 2 d"
        "digit_run 2 hh" "digit_run 2 mi" "digit_run 2 se"
      and fr: "fr = [] \<or> (\<exists>ds. ds \<noteq> [] \<and> list_all is_digit ds \<and> fr = ''.'' @ ds)"
    unfolding utc_pattern_any_fraction_def by blast
  let ?h = "y @ ''-'' @ mo @ ''-'' @ d @ ''T'' @ hh @ '':'' @ mi @ '':'' @ se"
  have len: "length ?h = 19"
    using runs by (simp add: digit_run_def)
  have split: "s = ?h @ (fr @ ''Z'')"
    using s by simp
  have "take 19 s = ?h" "drop 19 s = fr @ ''Z''"
    unfolding split using len by (simp_all del: append_assoc append.simps)
  moreover have "date_head ?h"
    unfolding date_head_iff using runs by blast
  moreover have "date_tail (fr @ ''Z'')"
    unfolding date_tail_iff using fr by auto
  ultimately show "dateRegex_test s"
    by (simp add: dateRegex_test_def)
qed

lemma iso_utc_pattern_any_fraction:
  assumes "iso_utc_pattern s"
  shows "utc_pattern_any_fraction s"
proof -
  have "dateRegex_test s"
    using assms
    by (auto simp add: iso_utc_pattern_def matches_shape_def list_all2_Cons1 shape_char_def
          dateRegex_test_def date_head_def date_tail_def not_digit_Z)
  then show ?thesis
    by (simp add: dateRegex_test_iff_pattern)
qed

text \<open>
  Claim C8, as amended.  Validating against a specification, the date-ordering errors
  are, in order, exactly those of the ranged filters that violate the date order; and a
  ranged filter violates it exactly when both bounds are strings of the pattern
  \<^verbatim>\<open>YYYY-MM-DDTHH:mm:ssZ\<close> with an optional fraction of one or more digits (a dot and the
  digits before the \<^verbatim>\<open>Z\<close>), both parse to a valid date and the parsed start is strictly
  after the parsed end.  A filter with a bound that is not a string or not of this
  pattern contributes no such error, whatever the order of its bounds.  Every string of
  the pattern \<^verbatim>\<open>YYYY-MM-DDTHH:mm:ss[.fff]Z\<close> is of this pattern.  (Without a specification
  nothing is checked at all.)
\<close>

theorem date_order_errors_exactly:
  assumes "rangedFilters q = Some rs"
  shows "filter is_date_order_error (errors (validateQuery P q (Some spec))) =
           map date_order_error (filter (date_order_violation P) rs)
         \<and> (date_order_violation P r \<longleftrightarrow>
              (\<exists>s e a b. start r = JString s \<and> end_r r = JString e
                 \<and> utc_pattern_any_fraction s \<and> utc_pattern_any_fraction e
                 \<and> Date_parse P s = Some a \<and> Date_parse P e = Some b \<and> a > b))
         \<and> (iso_utc_pattern t \<longrightarrow> utc_pattern_any_fraction t)"
proof -
  have "filter is_date_order_error (errors (validateQuery P q (Some spec))) =
           map date_order_error (filter (date_order_violation P) rs)"
    using assms
    by (simp add: validateQuery_def Let_def validatePagination_date validateOrderKey_date
          validateRangedFilters_date validateSearchFilters_date validateFilters_date
          split: option.splits)
  moreover have "date_order_violation P r \<longleftrightarrow>
              (\<exists>s e a b. start r = JString s \<and> end_r r = JString e
                 \<and> utc_pattern_any_fraction s \<and> utc_pattern_any_fraction e
                 \<and> Date_parse P s = Some a \<and> Date_parse P e = Some b \<and> a > b)"
    by (auto simp add: date_order_violation_def dateRegex_test_iff_pattern
          split: jv.splits option.splits)
  ultimately show ?thesis
    using iso_utc_pattern_any_fraction [of t] by simp
qed

theorem date_order_errors_exactly_witness:
  "filter is_date_order_error (errors (validateQuery sample_platform
       (empty_request\<lparr>rangedFilters := Some
          [\<lparr>key = ''createdAt'', start = JString ''2023-12-31T00:00:00Z'', end_r = JString ''2023-01-01T00:00:00Z''\<rparr>,
           \<lparr>key = ''name'', start = JString ''z'', end_r = JString ''a''\<rparr>,
           \<lparr>key = ''price'', start = JNumber (Num 100), end_r = JNumber (Num 10)\<rparr>]\<rparr>)
       (Some allow_a)))
   = [''Range start date '' @ apo @ ''2023-12-31T00:00:00Z'' @ apo
        @ '' is after end date '' @ apo @ ''2023-01-01T00:00:00Z'' @ apo]
   \<and> iso_utc_pattern ''2023-12-31T00:00:00.123Z''
   \<and> utc_pattern_any_fraction ''2023-12-31T00:00:00.123Z''"
proof -
  have errs: "filter is_date_order_error (errors (validateQuery sample_platform
       (empty_request\<lparr>rangedFilters := Some
          [\<lparr>key = ''createdAt'', start = JString ''2023-12-31T00:00:00Z'', end_r = JString ''2023-01-01T00:00:00Z''\<rparr>,
           \<lparr>key = ''name'', start = JString ''z'', end_r = JString ''a''\<rparr>,
           \<lparr>key = ''price'', start = JNumber (Num 100), end_r = JNumber (Num 10)\<rparr>]\<rparr>)
       (Some allow_a)))
   = [''Range start date '' @ apo @ ''2023-12-31T00:00:00Z'' @ apo
        @ '' is after end date '' @ apo @ ''2023-01-01T00:00:00Z'' @ apo]"
    using date_order_errors_exactly [THEN conjunct1, of "empty_request\<lparr>rangedFilters := Some
          [\<lparr>key = ''createdAt'', start = JString ''2023-12-31T00:00:00Z'', end_r = JString ''2023-01-01T00:00:00Z''\<rparr>,
           \<lparr>key = ''name'', start = JString ''z'', end_r = JString ''a''\<rparr>,
           \<lparr>key = ''price'', start = JNumber (Num 100), end_r = JNumber (Num 10)\<rparr>]\<rparr>"
       "[\<lparr>key = ''createdAt'', start = JString ''2023-12-31T00:00:00Z'', end_r = JString ''2023-01-01T00:00:00Z''\<rparr>,
           \<lparr>key = ''name'', start = JString ''z'', end_r = JString ''a''\<rparr>,
           \<lparr>key = ''price'', start = JNumber (Num 100), end_r = JNumber (Num 10)\<rparr>]"
       sample_platform allow_a]
    by (simp add: empty_request_def date_order_violation_def dateRegex_test_def date_head_def
        date_tail_def is_digit_def sample_platform_def date_order_error_def bound_text_def)
  have millis: "iso_utc_pattern ''2023-12-31T00:00:00.123Z''"
    by (simp add: iso_utc_pattern_def matches_shape_def shape_char_def is_digit_def)
  have "utc_pattern_any_fraction ''2023-12-31T00:00:00.123Z''"
    using date_order_errors_exactly [THEN conjunct2, THEN conjunct2,
        of "empty_request\<lparr>rangedFilters := Some []\<rparr>" "[]" "''2023-12-31T00:00:00.123Z''"]
      millis
    by (simp add: empty_request_def)
  with errs millis show ?thesis by blast
qed

text \<open>
  Claim C8 as stated fails for a fraction that is not of three digits: the start
  \<^verbatim>\<open>2023-12-31T00:00:00.5Z\<close> is not of the pattern \<^verbatim>\<open>YYYY-MM-DDTHH:mm:ss[.fff]Z\<close>, yet the
  validator emits the date-ordering error.
\<close>

theorem date_order_short_fraction_counterexample:
  "\<not> iso_utc_pattern ''2023-12-31T00:00:00.5Z''
   \<and> filter is_date_order_error (errors (validateQuery sample_platform
       (empty_request\<lparr>rangedFilters := Some
          [\<lparr>key = ''createdAt'', start = JString ''2023-12-31T00:00:00.5Z'', end_r = JString ''2023-01-01T00:00:00Z''\<rparr>]\<rparr>)
       (Some allow_a)))
     = [''Range start date '' @ apo @ ''2023-12-31T00:00:00.5Z'' @ apo
          @ '' is after end date '' @ apo @ ''2023-01-01T00:00:00Z'' @ apo]"
proof -
  have "\<not> iso_utc_pattern ''2023-12-31T00:00:00.5Z''"
    by (simp add: iso_utc_pattern_def matches_shape_def shape_char_def)
  moreover have "filter is_date_order_error (errors (validateQuery sample_platform
       (empty_request\<lparr>rangedFilters := Some
          [\<lparr>key = ''createdAt'', start = JString ''2023-12-31T00:00:00.5Z'', end_r = JString ''2023-01-01T00:00:00Z''\<rparr>]\<rparr>)
       (Some allow_a)))
     = [''Range start date '' @ apo @ ''2023-12-31T00:00:00.5Z'' @ apo
          @ '' is after end date '' @ apo @ ''2023-01-01T00:00:00Z'' @ apo]"
    by (simp add: validateQuery_def validateFilters_def validateSearchFilters_def
          validateRangedFilters_def validateRangedFilters_step_def validateOrderKey_def
          validatePagination_def empty_request_def allow_a_def isValidDate_def
          dateRegex_test_def date_head_def date_tail_def is_digit_def sample_platform_def
          date_order_error_def date_after_def bound_text_def is_date_order_error_def
          not_in_list_def in_list_def includes_dot_def Let_def)
  ultimately show ?thesis by simp
qed

section \<open>The extractor\<close>

lemma decoded_as_expected:
  "(if truthy_param x
    then (case decode_param P (the x) of Inr v \<Rightarrow> Some v | Inl e \<Rightarrow> None)
    else None) = expected_decoded P x"
  by (cases x rule: truthy_param.cases)
     (auto simp add: expected_decoded_def decode_param_def split: option.splits list.splits)

lemma fails_as_expected:
  "(truthy_param x \<and> (\<exists>e. decode_param P (the x) = Inl e)) = decode_fails P x"
  by (cases x rule: truthy_param.cases)
     (auto simp add: decode_fails_def decode_param_def split: option.splits list.splits)

lemma text_as_expected:
  "(if truthy_param x then Some (first_value (the x)) else None) = expected_text x"
  by (cases x rule: truthy_param.cases)
     (auto simp add: expected_text_def split: list.splits)

lemma int_as_expected:
  "(if truthy_param x then Some (parseInt P (first_value (the x))) else None) = expected_int P x"
  by (cases x rule: truthy_param.cases)
     (auto simp add: expected_int_def parseInt_def split: list.splits)

lemma extract_blocks:
  "extractQueryFromParams P qp =
     Inr (\<lparr>x_filters = (if truthy_param (qp ''filters'')
                        then (case decode_param P (the (qp ''filters'')) of Inr v \<Rightarrow> Some v | Inl e \<Rightarrow> None)
                        else None),
           x_searchFilters = (if truthy_param (qp ''searchFilters'')
                        then (case decode_param P (the (qp ''searchFilters'')) of Inr v \<Rightarrow> Some v | Inl e \<Rightarrow> None)
                        else None),
           x_rangedFilters = (if truthy_param (qp ''rangedFilters'')
                        then (case decode_param P (the (qp ''rangedFilters'')) of Inr v \<Rightarrow> Some v | Inl e \<Rightarrow> None)
                        else None),
           x_orderKey = (if truthy_param (qp ''orderKey'')
                         then Some (first_value (the (qp ''orderKey''))) else None),
           x_orderRule = (if truthy_param (qp ''orderRule'')
                         then Some (first_value (the (qp ''orderRule''))) else None),
           x_page = (if truthy_param (qp ''page'')
                     then Some (parseInt P (first_value (the (qp ''page'')))) else None),
           x_rows = (if truthy_param (qp ''rows'')
                     then Some (parseInt P (first_value (the (qp ''rows'')))) else None)\<rparr>,
          (if truthy_param (qp ''filters'') \<and> (\<exists>e. decode_param P (the (qp ''filters'')) = Inl e)
           then [''Failed to parse filters:''] else [])
          @ (if truthy_param (qp ''searchFilters'') \<and> (\<exists>e. decode_param P (the (qp ''searchFilters'')) = Inl e)
             then [''Failed to parse searchFilters:''] else [])
          @ (if truthy_param (qp ''rangedFilters'') \<and> (\<exists>e. decode_param P (the (qp ''rangedFilters'')) = Inl e)
             then [''Failed to parse rangedFilters:''] else []))"
  by (cases "decode_param P (the (qp ''filters''))";
      cases "decode_param P (the (qp ''searchFilters''))";
      cases "decode_param P (the (qp ''rangedFilters''))")
     (simp_all add: extractQueryFromParams_def Let_def)

text \<open>
  Claim C9.  For every parameter mapping and every engine the extraction returns a
  result, never an exception, and the result is determined field by field: each of
  \<^verbatim>\<open>filters\<close>, \<^verbatim>\<open>searchFilters\<close> and \<^verbatim>\<open>rangedFilters\<close> holds the decoded value of its own
  parameter, \<^verbatim>\<open>orderKey\<close> and \<^verbatim>\<open>orderRule\<close> the text of theirs, \<^verbatim>\<open>page\<close> and \<^verbatim>\<open>rows\<close> the
  parsed integer of theirs, whatever becomes of the other parameters.  A parameter whose
  decoding fails leaves its field unset and puts one line on the console.
\<close>

theorem extract_total_and_fieldwise:
  "extractQueryFromParams P qp =
     Inr (\<lparr>x_filters = expected_decoded P (qp ''filters''),
           x_searchFilters = expected_decoded P (qp ''searchFilters''),
           x_rangedFilters = expected_decoded P (qp ''rangedFilters''),
           x_orderKey = expected_text (qp ''orderKey''),
           x_orderRule = expected_text (qp ''orderRule''),
           x_page = expected_int P (qp ''page''),
           x_rows = expected_int P (qp ''rows'')\<rparr>,
          expected_warning P ''filters'' (qp ''filters'')
          @ expected_warning P ''searchFilters'' (qp ''searchFilters'')
          @ expected_warning P ''rangedFilters'' (qp ''rangedFilters''))
   \<and> (decode_fails P x \<longrightarrow>
        expected_decoded P x = None \<and> expected_warning P k x = [''Failed to parse '' @ k @ '':''])"
proof -
  have "decode_fails P x \<longrightarrow>
        expected_decoded P x = None \<and> expected_warning P k x = [''Failed to parse '' @ k @ '':'']"
    by (auto simp add: decode_fails_def expected_decoded_def expected_warning_def
          split: option.splits param.splits list.splits)
  then show ?thesis
    unfolding extract_blocks decoded_as_expected text_as_expected int_as_expected fails_as_expected
    by (simp add: expected_warning_def)
qed

theorem extract_total_and_fieldwise_witness:
  "extractQueryFromParams sample_platform
       [''filters'' \<mapsto> PString ''{bad'', ''searchFilters'' \<mapsto> PString ''{}'',
        ''orderKey'' \<mapsto> PString ''createdAt'', ''page'' \<mapsto> PArray [''2'', ''7''],
        ''rows'' \<mapsto> PString ''25'']
     = Inr (\<lparr>x_filters = None, x_searchFilters = Some (JObject []), x_rangedFilters = None,
             x_orderKey = Some (JString ''createdAt''), x_orderRule = None,
             x_page = Some (Num 2), x_rows = Some (Num 25)\<rparr>,
            [''Failed to parse filters:''])
   \<and> decode_fails sample_platform (Some (PString ''{bad''))
   \<and> expected_decoded sample_platform (Some (PString ''{bad'')) = None
   \<and> expected_warning sample_platform ''filters'' (Some (PString ''{bad''))
       = [''Failed to parse filters:'']"
proof -
  have fails: "decode_fails sample_platform (Some (PString ''{bad''))"
    by (simp add: decode_fails_def sample_platform_def)
  have unset: "expected_decoded sample_platform (Some (PString ''{bad'')) = None
      \<and> expected_warning sample_platform ''filters'' (Some (PString ''{bad''))
          = [''Failed to parse filters:'']"
    using extract_total_and_fieldwise [THEN conjunct2, of sample_platform
        "Some (PString ''{bad'')" "''filters''"] fails
    by simp
  have whole: "extractQueryFromParams sample_platform
       [''filters'' \<mapsto> PString ''{bad'', ''searchFilters'' \<mapsto> PString ''{}'',
        ''orderKey'' \<mapsto> PString ''createdAt'', ''page'' \<mapsto> PArray [''2'', ''7''],
        ''rows'' \<mapsto> PString ''25'']
     = Inr (\<lparr>x_filters = None, x_searchFilters = Some (JObject []), x_rangedFilters = None,
             x_orderKey = Some (JString ''createdAt''), x_orderRule = None,
             x_page = Some (Num 2), x_rows = Some (Num 25)\<rparr>,
            [''Failed to parse filters:''])"
  proof -
    have p2: "parseInt_string sample_platform ''2'' = Num 2"
      by (simp add: parseInt_string_def is_space_def is_digit_def digits_value_def
            digit_value_def double_of_int_def Let_def)
    have p25: "parseInt_string sample_platform ''25'' = Num 25"
      by (simp add: parseInt_string_def is_space_def is_digit_def digits_value_def
            digit_value_def double_of_int_def Let_def)
    show ?thesis
      unfolding extract_total_and_fieldwise [THEN conjunct1]
      by (simp add: expected_decoded_def expected_text_def expected_int_def
            expected_warning_def decode_fails_def sample_platform_def
            p2 [unfolded sample_platform_def] p25 [unfolded sample_platform_def])
  qed
  from whole fails unset show ?thesis by blast
qed

section \<open>The transformer: empty elements\<close>

text \<open>\<^verbatim>\<open>map_err\<close> returns the results element by element, or the first exception.\<close>

lemma map_err_Inr_set:
  "map_err f xs = Inr ys \<Longrightarrow> y \<in> set ys \<Longrightarrow> \<exists>x \<in> set xs. f x = Inr y"
  by (induction xs arbitrary: ys) (auto split: sum.splits)

lemma map_err_Inr_iff:
  "map_err f xs = Inr ys \<longleftrightarrow>
     length ys = length xs \<and> (\<forall>i < length xs. f (xs ! i) = Inr (ys ! i))"
proof (induction xs arbitrary: ys)
  case Nil
  then show ?case by auto
next
  case (Cons x xs)
  show ?case
  proof (cases ys)
    case Nil
    then show ?thesis by (auto split: sum.splits)
  next
    case (Cons y ys')
    then show ?thesis
      using Cons.IH [of ys'] by (auto simp add: nth_Cons split: sum.splits nat.splits)
  qed
qed

lemma transformCondition_object:
  "transformCondition P config c = Inr t \<Longrightarrow> \<exists>kvs. t = JObject kvs"
  by (auto simp add: transformCondition_def split: if_splits sum.splits)

lemma transform_AND_element_object:
  "transform_AND_element P config c = Inr t \<Longrightarrow> (\<exists>kvs. t = JObject kvs) \<or> t = JNull"
  by (auto simp add: transform_AND_element_def Let_def
        split: sum.splits jv.splits if_splits dest: transformCondition_object)

lemma nonempty_condition_simps:
  "nonempty_condition (JObject kvs) \<longleftrightarrow> kvs \<noteq> []"
  "\<not> nonempty_condition JNull"
  by (simp_all add: nonempty_condition_def own_entries_def)

lemma kept_conditions:
  assumes "map_err (transformCondition P config) cs = Inr ts"
  shows "filter nonempty_condition ts = filter (\<lambda>t. t \<noteq> JObject []) ts"
proof (rule filter_cong [OF refl])
  fix t assume "t \<in> set ts"
  then obtain c where "transformCondition P config c = Inr t"
    using map_err_Inr_set [OF assms] by blast
  then obtain kvs where "t = JObject kvs"
    using transformCondition_object by blast
  then show "nonempty_condition t = (t \<noteq> JObject [])"
    by (simp add: nonempty_condition_simps)
qed

lemma kept_AND_elements:
  assumes "map_err (transform_AND_element P config) cs = Inr ts"
  shows "filter nonempty_condition ts = filter (\<lambda>t. t \<noteq> JObject [] \<and> t \<noteq> JNull) ts"
proof (rule filter_cong [OF refl])
  fix t assume "t \<in> set ts"
  then obtain c where "transform_AND_element P config c = Inr t"
    using map_err_Inr_set [OF assms] by blast
  then have "(\<exists>kvs. t = JObject kvs) \<or> t = JNull"
    using transform_AND_element_object by blast
  then show "nonempty_condition t = (t \<noteq> JObject [] \<and> t \<noteq> JNull)"
    by (auto simp add: nonempty_condition_simps)
qed

lemma transformWhereClause_AND:
  assumes "map_of kvs ''AND'' = Some (JArray ands)"
  shows "transformWhereClause P (JObject kvs) config =
           (case map_err (transform_AND_element P config) ands of
              Inl e \<Rightarrow> Inl e
            | Inr ts \<Rightarrow>
                Inr (if filter (\<lambda>t. t \<noteq> JObject [] \<and> t \<noteq> JNull) ts = [] then JObject []
                     else JObject (obj_set kvs ''AND''
                            (JArray (filter (\<lambda>t. t \<noteq> JObject [] \<and> t \<noteq> JNull) ts)))))"
  using assms
  by (auto simp add: transformWhereClause_def get_property_def obj_get_def own_entries_def Let_def
        kept_AND_elements split: sum.splits)

lemma transformWhereClause_OR:
  assumes "\<forall>x. map_of kvs ''AND'' \<noteq> Some (JArray x)" and "map_of kvs ''OR'' = Some (JArray ors)"
  shows "transformWhereClause P (JObject kvs) config =
           (case map_err (transformCondition P config) ors of
              Inl e \<Rightarrow> Inl e
            | Inr ts \<Rightarrow>
                Inr (if filter (\<lambda>t. t \<noteq> JObject []) ts = [] then JObject []
                     else JObject (obj_set kvs ''OR'' (JArray (filter (\<lambda>t. t \<noteq> JObject []) ts)))))"
  using assms
  by (auto simp add: transformWhereClause_def get_property_def obj_get_def own_entries_def Let_def
        kept_conditions split: sum.splits option.splits jv.splits)

lemma transform_AND_element_OR:
  assumes "map_of ckvs ''OR'' = Some (JArray ors)"
  shows "transform_AND_element P config (JObject ckvs) =
           (case map_err (transformCondition P config) ors of
              Inl e \<Rightarrow> Inl e
            | Inr ts \<Rightarrow>
                Inr (if filter (\<lambda>t. t \<noteq> JObject []) ts = [] then JNull
                     else JObject [(''OR'', JArray (filter (\<lambda>t. t \<noteq> JObject []) ts))]))"
  using assms
  by (auto simp add: transform_AND_element_def get_property_def obj_get_def Let_def
        kept_conditions split: sum.splits)

text \<open>
  Claim C7.  For a root object with an \<^verbatim>\<open>AND\<close> array, every element is transformed
  (an exception of one of them ends the call), and the elements that became the empty
  object, or \<^verbatim>\<open>null\<close> because their own \<^verbatim>\<open>OR\<close> emptied, are discarded from the
  sequence; if nothing is left the result is the empty object, neither \<^verbatim>\<open>null\<close> nor
  absent, and otherwise the root with \<^verbatim>\<open>AND\<close> replaced by what is left.  An element that
  holds an \<^verbatim>\<open>OR\<close> array becomes the \<^verbatim>\<open>OR\<close> of its transformed members that are not
  the empty object.  A root with an \<^verbatim>\<open>OR\<close> array and no \<^verbatim>\<open>AND\<close> array is treated like
  the \<^verbatim>\<open>AND\<close> root.  This holds for every configuration and every engine.
\<close>

theorem transformWhere_discards_empty_elements:
  "(map_of kvs ''AND'' = Some (JArray ands) \<longrightarrow>
      transformWhereClause P (JObject kvs) config =
        (case map_err (transform_AND_element P config) ands of
           Inl e \<Rightarrow> Inl e
         | Inr ts \<Rightarrow>
             Inr (if filter (\<lambda>t. t \<noteq> JObject [] \<and> t \<noteq> JNull) ts = [] then JObject []
                  else JObject (obj_set kvs ''AND''
                         (JArray (filter (\<lambda>t. t \<noteq> JObject [] \<and> t \<noteq> JNull) ts))))))
   \<and> (map_of ckvs ''OR'' = Some (JArray ors) \<longrightarrow>
      transform_AND_element P config (JObject ckvs) =
        (case map_err (transformCondition P config) ors of
           Inl e \<Rightarrow> Inl e
         | Inr ts \<Rightarrow>
             Inr (if filter (\<lambda>t. t \<noteq> JObject []) ts = [] then JNull
                  else JObject [(''OR'', JArray (filter (\<lambda>t. t \<noteq> JObject []) ts))])))
   \<and> ((\<forall>x. map_of kvs ''AND'' \<noteq> Some (JArray x)) \<and> map_of kvs ''OR'' = Some (JArray ors) \<longrightarrow>
      transformWhereClause P (JObject kvs) config =
        (case map_err (transformCondition P config) ors of
           Inl e \<Rightarrow> Inl e
         | Inr ts \<Rightarrow>
             Inr (if filter (\<lambda>t. t \<noteq> JObject []) ts = [] then JObject []
                  else JObject (obj_set kvs ''OR'' (JArray (filter (\<lambda>t. t \<noteq> JObject []) ts))))))"
  using transformWhereClause_AND [of kvs ands P config]
        transform_AND_element_OR [of ckvs ors P config]
        transformWhereClause_OR [of kvs ors P config]
  by blast

theorem transformWhere_discards_empty_elements_witness:
  "transformWhereClause sample_platform
     (JObject [(''AND'', JArray
        [JObject [(''a'', JNull)],
         JObject [(''OR'', JArray [JObject [(''b'', JNull)]])],
         JObject [(''c'', JString ''x'')],
         JObject [(''OR'', JArray [JObject [(''d'', JNull)], JObject [(''e'', JNumber (Num 1))]])]])])
     empty_config
   = Inr (JObject [(''AND'', JArray
        [JObject [(''c'', JObject [(''contains'', JString ''x'')])],
         JObject [(''OR'', JArray [JObject [(''e'', JObject [(''equals'', JNumber (Num 1))])]])]])])
   \<and> transformWhereClause sample_platform
        (JObject [(''AND'', JArray [JObject [(''a'', JNull)], JObject [(''OR'', JArray [JObject [(''b'', JNull)]])]])])
        empty_config
     = Inr (JObject [])"
  using transformWhere_discards_empty_elements
          [of "[(''AND'', JArray
                 [JObject [(''a'', JNull)],
                  JObject [(''OR'', JArray [JObject [(''b'', JNull)]])],
                  JObject [(''c'', JString ''x'')],
                  JObject [(''OR'', JArray [JObject [(''d'', JNull)], JObject [(''e'', JNumber (Num 1))]])]])]"
              "[JObject [(''a'', JNull)],
                  JObject [(''OR'', JArray [JObject [(''b'', JNull)]])],
                  JObject [(''c'', JString ''x'')],
                  JObject [(''OR'', JArray [JObject [(''d'', JNull)], JObject [(''e'', JNumber (Num 1))]])]]"
              sample_platform empty_config "[]" "[]"]
        transformWhere_discards_empty_elements
          [of "[(''AND'', JArray [JObject [(''a'', JNull)], JObject [(''OR'', JArray [JObject [(''b'', JNull)]])]])]"
              "[JObject [(''a'', JNull)], JObject [(''OR'', JArray [JObject [(''b'', JNull)]])]]"
              sample_platform empty_config "[]" "[]"]
  by (simp add: transform_AND_element_def get_property_def obj_get_def transformCondition_def
        own_entries_def transformCondition_step_def or_default_def processFieldValue_def
        nonempty_condition_def empty_config_def Let_def)

section \<open>The transformer: the empty configuration\<close>

lemma scalar_cases:
  assumes "scalar v"
  obtains s where "v = JString s" | n where "v = JNumber n" | b where "v = JBool b"
  using assms by (cases v) (simp_all add: scalar_def)

lemma map_err_all:
  "(\<forall>x \<in> set xs. f x = Inr (g x)) \<Longrightarrow> map_err f xs = Inr (map g xs)"
  by (induction xs) simp_all

lemma transformCondition_scalar:
  assumes "scalar v"
  shows "transformCondition P empty_config (JObject [(k, v)]) = Inr (JObject [(k, spec_default_wrapper v)])"
  using assms
  by (elim scalar_cases)
     (simp_all add: transformCondition_def own_entries_def transformCondition_step_def
        empty_config_def or_default_def processFieldValue_def spec_default_wrapper_def Let_def)

lemma transformCondition_contains:
  "transformCondition P empty_config (JObject [(k, JObject [(''contains'', JString s)])])
     = Inr (JObject [(k, JObject [(''contains'', JString s)])])"
  by (simp add: transformCondition_def own_entries_def transformCondition_step_def
        empty_config_def or_default_def processFieldValue_def Let_def)

lemma normal_scalar:
  assumes "scalar v"
  shows "transforms_to_normal P (JObject [(k, v)])"
    and "spec_normalized_condition (JObject [(k, v)]) = JObject [(k, spec_default_wrapper v)]"
  using assms transformCondition_scalar [OF assms, of P k]
  by (elim scalar_cases;
      simp add: transforms_to_normal_def transform_AND_element_def get_property_def obj_get_def
        spec_normalized_condition_def spec_normalized_leaf_def spec_default_wrapper_def nonempty_condition_def
        own_entries_def)+

lemma normal_contains:
  "transforms_to_normal P (JObject [(k, JObject [(''contains'', JString s)])])"
  "spec_normalized_condition (JObject [(k, JObject [(''contains'', JString s)])])
     = JObject [(k, JObject [(''contains'', JString s)])]"
  using transformCondition_contains [of P k s]
  by (simp_all add: transforms_to_normal_def transform_AND_element_def get_property_def obj_get_def
        spec_normalized_condition_def spec_normalized_leaf_def spec_default_wrapper_def nonempty_condition_def
        own_entries_def)

lemma normal_or:
  assumes "cs \<noteq> []"
    and "\<forall>c \<in> set cs. transformCondition P empty_config c = Inr (spec_normalized_leaf c)
                       \<and> nonempty_condition (spec_normalized_leaf c)"
  shows "transforms_to_normal P (JObject [(''OR'', JArray cs)])"
proof -
  have m: "map_err (transformCondition P empty_config) cs = Inr (map spec_normalized_leaf cs)"
    using assms(2) by (simp add: map_err_all)
  have k: "filter nonempty_condition (map spec_normalized_leaf cs) = map spec_normalized_leaf cs"
    using assms(2) by (simp add: filter_id_conv)
  show ?thesis
    using assms(1)
    by (simp add: transforms_to_normal_def transform_AND_element_def get_property_def obj_get_def
          m k spec_normalized_condition_def nonempty_condition_def own_entries_def)
qed

lemma filter_entry_plain:
  assumes "\<not> includes_dot k" and "plain_filter_value v" and "\<not> nullish v"
  shows "(scalar v \<and> filter_entry k v = JObject [(k, v)])
         \<or> (\<exists>vs. vs \<noteq> [] \<and> list_all scalar vs
               \<and> filter_entry k v = JObject [(''OR'', JArray (map (\<lambda>x. JObject [(k, x)]) vs))])"
  using assms
  by (cases v)
     (auto simp add: plain_filter_value_def filter_entry_def equality_predicate_def scalar_def)

lemma normal_filter_entry:
  assumes "\<not> includes_dot k" and "plain_filter_value v" and "\<not> nullish v"
  shows "transforms_to_normal P (filter_entry k v)"
    and "spec_normalized_condition (filter_entry k v) \<noteq> filter_entry k v"
proof -
  consider (one) "scalar v" "filter_entry k v = JObject [(k, v)]"
    | (many) vs where "vs \<noteq> []" "list_all scalar vs"
        "filter_entry k v = JObject [(''OR'', JArray (map (\<lambda>x. JObject [(k, x)]) vs))]"
    using filter_entry_plain [OF assms] by blast
  then have "transforms_to_normal P (filter_entry k v)
             \<and> spec_normalized_condition (filter_entry k v) \<noteq> filter_entry k v"
  proof cases
    case one
    have "spec_default_wrapper v \<noteq> v"
      using one(1) by (elim scalar_cases) (simp_all add: spec_default_wrapper_def)
    then show ?thesis
      using one by (simp add: normal_scalar)
  next
    case many
    let ?cs = "map (\<lambda>x. JObject [(k, x)]) vs"
    have each: "\<forall>c \<in> set ?cs. transformCondition P empty_config c = Inr (spec_normalized_leaf c)
                  \<and> nonempty_condition (spec_normalized_leaf c)"
      using many(2)
      by (auto simp add: list_all_iff transformCondition_scalar spec_normalized_leaf_def
            nonempty_condition_def own_entries_def)
    have "?cs \<noteq> []"
      using many(1) by simp
    then have t: "transforms_to_normal P (JObject [(''OR'', JArray ?cs)])"
      using each by (rule normal_or)
    obtain x xs where vs: "vs = x # xs"
      using many(1) by (cases vs) auto
    have "scalar x"
      using many(2) vs by simp
    then have "spec_default_wrapper x \<noteq> x"
      by (elim scalar_cases) (simp_all add: spec_default_wrapper_def)
    then have "spec_normalized_condition (JObject [(''OR'', JArray ?cs)]) \<noteq> JObject [(''OR'', JArray ?cs)]"
      using vs by (simp add: spec_normalized_condition_def spec_normalized_leaf_def)
    then show ?thesis
      using many(3) t by simp
  qed
  then show "transforms_to_normal P (filter_entry k v)"
    and "spec_normalized_condition (filter_entry k v) \<noteq> filter_entry k v"
    by simp_all
qed

lemma searchQuery_plain:
  assumes "\<not> includes_dot k" and "plain_search_value v" and "\<not> nullish v"
  shows "\<exists>s. searchQuery k v = JObject [(k, JObject [(''contains'', JString s)])]"
  using assms by (cases v) (auto simp add: plain_search_value_def searchQuery_def)

lemma normal_search:
  assumes "list_all (\<lambda>(k, v). \<not> includes_dot k \<and> plain_search_value v) ss"
    and "c \<in> set (buildSearchQuery ss)"
  shows "transforms_to_normal P c" and "spec_normalized_condition c = c"
proof -
  let ?preds = "map (\<lambda>(k, v). searchQuery k v) (filter (\<lambda>(k, v). \<not> nullish v) ss)"
  have shape: "\<exists>k s. p = JObject [(k, JObject [(''contains'', JString s)])]" if "p \<in> set ?preds" for p
    using that assms(1) searchQuery_plain by (fastforce simp add: list_all_iff)
  have leafs: "\<forall>p \<in> set ?preds. transformCondition P empty_config p = Inr (spec_normalized_leaf p)
                  \<and> nonempty_condition (spec_normalized_leaf p) \<and> spec_normalized_leaf p = p"
  proof
    fix p assume "p \<in> set ?preds"
    then obtain k s where "p = JObject [(k, JObject [(''contains'', JString s)])]"
      using shape by blast
    then show "transformCondition P empty_config p = Inr (spec_normalized_leaf p)
                  \<and> nonempty_condition (spec_normalized_leaf p) \<and> spec_normalized_leaf p = p"
      by (simp add: transformCondition_contains spec_normalized_leaf_def spec_default_wrapper_def
            nonempty_condition_def own_entries_def)
  qed
  consider (direct) "c \<in> set ?preds" | (wrapped) "?preds \<noteq> []" "c = JObject [(''OR'', JArray ?preds)]"
    using assms(2) by (auto simp add: buildSearchQuery_eq Let_def split: if_splits)
  then have "transforms_to_normal P c \<and> spec_normalized_condition c = c"
  proof cases
    case direct
    then obtain k s where "c = JObject [(k, JObject [(''contains'', JString s)])]"
      using shape by blast
    then show ?thesis
      by (simp add: normal_contains)
  next
    case wrapped
    have "map spec_normalized_leaf ?preds = ?preds"
      using leafs by (simp add: map_idI)
    then have "spec_normalized_condition c = c"
      using wrapped(2) by (simp add: spec_normalized_condition_def)
    moreover have "\<forall>p \<in> set ?preds. transformCondition P empty_config p = Inr (spec_normalized_leaf p)
                  \<and> nonempty_condition (spec_normalized_leaf p)"
      using leafs by blast
    then have "transforms_to_normal P c"
      unfolding wrapped(2) by (rule normal_or [OF wrapped(1)])
    ultimately show ?thesis by simp
  qed
  then show "transforms_to_normal P c" and "spec_normalized_condition c = c"
    by simp_all
qed

lemma qwhere_buildFilterQuery:
  "qwhere (buildFilterQuery f) = JObject [(''AND'', JArray (where_AND (buildFilterQuery f)))]"
  by (simp add: where_AND_def buildFilterQuery_def Let_def split: prod.splits)

lemma all_normal:
  assumes "\<forall>c \<in> set cs. transforms_to_normal P c" and "cs \<noteq> []"
  shows "transformWhereClause P (JObject [(''AND'', JArray cs)]) empty_config
           = Inr (JObject [(''AND'', JArray (map spec_normalized_condition cs))])"
proof -
  have m: "map_err (transform_AND_element P empty_config) cs = Inr (map spec_normalized_condition cs)"
    using assms(1) by (simp add: map_err_all transforms_to_normal_def)
  have k: "filter nonempty_condition (map spec_normalized_condition cs) = map spec_normalized_condition cs"
    using assms(1) by (simp add: filter_id_conv transforms_to_normal_def)
  show ?thesis
    using assms(2)
    by (simp add: transformWhereClause_def get_property_def obj_get_def m k own_entries_def)
qed

text \<open>
  Claim C6, as amended.  For a plain request that compiles to at least one condition,
  the transformer under the empty configuration returns the normal form of the compiled
  tree: the same \<^verbatim>\<open>AND\<close>/\<^verbatim>\<open>OR\<close> structure, keys and order, each filter value in its
  default wrapper and each search predicate unchanged.  The result is the compiled tree
  itself exactly when the request has no filter entry with a value other than \<^verbatim>\<open>null\<close>
  or \<^verbatim>\<open>undefined\<close>.
\<close>

theorem empty_config_normalizes_plain_requests:
  assumes "plain_request f" and "where_AND (buildFilterQuery f) \<noteq> []"
  shows "transformWhereClause P (qwhere (buildFilterQuery f)) empty_config
           = Inr (spec_normalized_tree (qwhere (buildFilterQuery f)))
         \<and> (spec_normalized_tree (qwhere (buildFilterQuery f)) = qwhere (buildFilterQuery f)
              \<longleftrightarrow> (case filters f of None \<Rightarrow> True | Some fs \<Rightarrow> list_all (\<lambda>(k, v). nullish v) fs))"
proof -
  let ?F = "case filters f of None \<Rightarrow> [] | Some fs \<Rightarrow> buildWhereQuery fs"
  let ?S = "case searchFilters f of None \<Rightarrow> [] | Some ss \<Rightarrow> buildSearchQuery ss"
  have no_ranges: "(case rangedFilters f of None \<Rightarrow> [] | Some rs \<Rightarrow> buildRangedFilter rs) = []"
    using assms(1) by (simp add: plain_request_def buildRangedFilter_def split: option.splits)
  have conds: "where_AND (buildFilterQuery f) = ?F @ ?S"
    by (simp add: where_AND_buildFilterQuery no_ranges)
  have F: "transforms_to_normal P c \<and> spec_normalized_condition c \<noteq> c" if c_in: "c \<in> set ?F" for c
  proof (cases "filters f")
    case None
    then show ?thesis using c_in by simp
  next
    case (Some fs)
    then obtain k v where kv: "(k, v) \<in> set fs" "\<not> nullish v" "c = filter_entry k v"
      using c_in by (auto simp add: buildWhereQuery_eq)
    have "\<not> includes_dot k" "plain_filter_value v"
      using assms(1) Some kv(1) by (auto simp add: plain_request_def plain_key_def list_all_iff)
    then show ?thesis
      using kv(2,3) normal_filter_entry by simp
  qed
  have S: "transforms_to_normal P c \<and> spec_normalized_condition c = c" if "c \<in> set ?S" for c
  proof (cases "searchFilters f")
    case None
    then show ?thesis using that by simp
  next
    case (Some ss)
    then have "list_all (\<lambda>(k, v). \<not> includes_dot k \<and> plain_search_value v) ss"
      using assms(1) by (auto simp add: plain_request_def plain_key_def list_all_iff)
    then show ?thesis
      using that Some normal_search by simp
  qed
  have "\<forall>c \<in> set (where_AND (buildFilterQuery f)). transforms_to_normal P c"
    using F S conds by auto
  then have run: "transformWhereClause P (qwhere (buildFilterQuery f)) empty_config
           = Inr (spec_normalized_tree (qwhere (buildFilterQuery f)))"
    using assms(2) by (simp add: qwhere_buildFilterQuery all_normal spec_normalized_tree_def)
  have "map spec_normalized_condition ?S = ?S"
  proof (rule map_idI)
    fix c assume "c \<in> set ?S"
    then show "spec_normalized_condition c = c"
      using S [of c] by blast
  qed
  moreover have "map spec_normalized_condition ?F = ?F \<longleftrightarrow> ?F = []"
  proof (cases ?F)
    case Nil
    then show ?thesis by simp
  next
    case (Cons c cs)
    then have "spec_normalized_condition c \<noteq> c"
      using F [of c] by simp
    then show ?thesis
      using Cons by simp
  qed
  ultimately have "spec_normalized_tree (qwhere (buildFilterQuery f)) = qwhere (buildFilterQuery f)
                     \<longleftrightarrow> ?F = []"
    by (simp add: qwhere_buildFilterQuery spec_normalized_tree_def conds)
  moreover have "?F = [] \<longleftrightarrow> (case filters f of None \<Rightarrow> True | Some fs \<Rightarrow> list_all (\<lambda>(k, v). nullish v) fs)"
    by (auto simp add: buildWhereQuery_eq filter_empty_conv list_all_iff split: option.splits)
  ultimately show ?thesis
    using run by simp
qed

theorem empty_config_normalizes_plain_requests_witness:
  "transformWhereClause sample_platform
      (qwhere (buildFilterQuery (empty_request\<lparr>
          filters := Some [(''status'', JString ''active''), (''level'', JArray [JNumber (Num 1), JNumber (Num 2)])],
          searchFilters := Some [(''title'', JString ''x'')]\<rparr>)))
      empty_config
   = Inr (JObject [(''AND'', JArray
       [JObject [(''status'', JObject [(''contains'', JString ''active'')])],
        JObject [(''OR'', JArray [JObject [(''level'', JObject [(''equals'', JNumber (Num 1))])],
                                  JObject [(''level'', JObject [(''equals'', JNumber (Num 2))])]])],
        JObject [(''title'', JObject [(''contains'', JString ''x'')])]])])"
proof -
  let ?f = "empty_request\<lparr>
          filters := Some [(''status'', JString ''active''), (''level'', JArray [JNumber (Num 1), JNumber (Num 2)])],
          searchFilters := Some [(''title'', JString ''x'')]\<rparr>"
  have w: "qwhere (buildFilterQuery ?f) = JObject [(''AND'', JArray
       [JObject [(''status'', JString ''active'')],
        JObject [(''OR'', JArray [JObject [(''level'', JNumber (Num 1))], JObject [(''level'', JNumber (Num 2))]])],
        JObject [(''title'', JObject [(''contains'', JString ''x'')])]])]"
    by (simp add: empty_request_def buildFilterQuery_def buildWhereQuery_def where_condition_def
          buildSearchQuery_def searchQuery_def includes_dot_def buildPagination_def truthy_opt_def Let_def)
  have p: "plain_request ?f"
    by (simp add: plain_request_def plain_key_def prototype_names_def empty_request_def
          includes_dot_def plain_filter_value_def plain_search_value_def scalar_def)
  have n: "where_AND (buildFilterQuery ?f) \<noteq> []"
    by (simp add: where_AND_def w)
  show ?thesis
    using empty_config_normalizes_plain_requests [OF p n, of sample_platform]
    by (simp add: w spec_normalized_tree_def spec_normalized_condition_def spec_normalized_leaf_def spec_default_wrapper_def)
qed

text \<open>
  Claim C6 as stated fails.  A range predicate \<^verbatim>\<open>{gte: 10, lte: 100}\<close> comes back as
  \<^verbatim>\<open>{equals: 10}\<close> (the upper bound is lost); a relation-scoped filter
  \<^verbatim>\<open>{user: {name: 'bob'}}\<close> comes back as \<^verbatim>\<open>{user: {contains: 'bob'}}\<close> (the column is
  lost); the tree of the empty request, \<^verbatim>\<open>{AND: []}\<close>, comes back as \<^verbatim>\<open>{}\<close>; and a tree
  of search predicates only comes back unchanged, a strict identity.
\<close>

theorem empty_config_loses_structure_counterexample:
  "transformWhereClause sample_platform
      (qwhere (buildFilterQuery (empty_request\<lparr>rangedFilters :=
          Some [\<lparr>key = ''price'', start = JNumber (Num 10), end_r = JNumber (Num 100)\<rparr>]\<rparr>)))
      empty_config
     = Inr (JObject [(''AND'', JArray [JObject [(''price'', JObject [(''equals'', JNumber (Num 10))])]])])
   \<and> transformWhereClause sample_platform
      (qwhere (buildFilterQuery (empty_request\<lparr>rangedFilters :=
          Some [\<lparr>key = ''price'', start = JNumber (Num 10), end_r = JNumber (Num 100)\<rparr>]\<rparr>)))
      empty_config
     \<noteq> Inr (spec_normalized_tree (qwhere (buildFilterQuery (empty_request\<lparr>rangedFilters :=
          Some [\<lparr>key = ''price'', start = JNumber (Num 10), end_r = JNumber (Num 100)\<rparr>]\<rparr>))))
   \<and> spec_normalized_tree (qwhere (buildFilterQuery (empty_request\<lparr>rangedFilters :=
          Some [\<lparr>key = ''price'', start = JNumber (Num 10), end_r = JNumber (Num 100)\<rparr>]\<rparr>)))
     = JObject [(''AND'', JArray [JObject [(''price'',
          JObject [(''gte'', JNumber (Num 10)), (''lte'', JNumber (Num 100))])]])]
   \<and> transformWhereClause sample_platform
        (qwhere (buildFilterQuery (empty_request\<lparr>filters := Some [(''user.name'', JString ''bob'')]\<rparr>)))
        empty_config
     = Inr (JObject [(''AND'', JArray [JObject [(''user'', JObject [(''contains'', JString ''bob'')])]])])
   \<and> transformWhereClause sample_platform (qwhere (buildFilterQuery empty_request)) empty_config
     = Inr (JObject [])
   \<and> transformWhereClause sample_platform
        (qwhere (buildFilterQuery (empty_request\<lparr>searchFilters := Some [(''title'', JString ''x'')]\<rparr>)))
        empty_config
     = Inr (qwhere (buildFilterQuery (empty_request\<lparr>searchFilters := Some [(''title'', JString ''x'')]\<rparr>)))"
  by (simp add: empty_request_def buildFilterQuery_def buildWhereQuery_def where_condition_def
        buildSearchQuery_def searchQuery_def buildRangedFilter_def rangeCondition_def
        includes_dot_def part_def buildPagination_def truthy_opt_def
        transformWhereClause_def get_property_def obj_get_def transform_AND_element_def
        transformCondition_def own_entries_def transformCondition_step_def or_default_def
        processFieldValue_def nonempty_condition_def empty_config_def
        spec_normalized_tree_def spec_normalized_condition_def spec_normalized_leaf_def spec_default_wrapper_def Let_def)

section \<open>The facade\<close>

text \<open>
  Claim C10.  For every request and every configuration of the facade, the \<^verbatim>\<open>query\<close> of
  \<^verbatim>\<open>build\<close> is the result of \<^verbatim>\<open>buildWithoutValidation\<close>, and one throws exactly when
  the other does: validation never alters the query.
\<close>

theorem build_query_is_buildWithoutValidation:
  "(case build P self f of Inl e \<Rightarrow> Inl e | Inr r \<Rightarrow> Inr (query r)) = buildWithoutValidation P self f"
  by (simp add: build_def buildWithoutValidation_def Let_def split: sum.splits option.splits)

theorem build_query_is_buildWithoutValidation_witness:
  "(case build sample_platform
           \<lparr>self_specification = Some allow_a, self_transformConfig = Some empty_config\<rparr>
           (empty_request\<lparr>filters := Some [(''status'', JString ''active'')],
                           orderKey := Some ''createdAt''\<rparr>) of
      Inl e \<Rightarrow> Inl e
    | Inr r \<Rightarrow> Inr (query r))
   = Inr \<lparr>qwhere = JObject [(''AND'', JArray [JObject [(''status'', JObject [(''contains'', JString ''active'')])]])],
          orderBy = JObject [(''createdAt'', JString ''asc'')], qtake = Num 10, qskip = Num 0\<rparr>"
  unfolding build_query_is_buildWithoutValidation
  by (simp add: buildWithoutValidation_def buildFilterQuery_def empty_request_def empty_config_def
          buildWhereQuery_def where_condition_def includes_dot_def buildPagination_def truthy_opt_def
          transformWhereClause_def get_property_def obj_get_def transform_AND_element_def
          transformCondition_def own_entries_def transformCondition_step_def or_default_def
          processFieldValue_def nonempty_condition_def transformOrderBy_def Let_def)

end
